theory Spec2Isabelle
  imports Main "HOL-Library.AList" "HOL-Library.Sublist"
begin

section \<open>JavaScript values used by the services\<close>

text \<open>
  Strings are lists of code units (\<open>string\<close>). An optional property
  (\<open>tag?: string\<close>) is a \<open>string option\<close>, \<open>None\<close> standing for
  \<open>undefined\<close>. JavaScript's truthiness test \<open>if (x)\<close> on such a property holds
  when the property is present and not the empty string.
\<close>

definition truthy :: "string option \<Rightarrow> bool" where
  "truthy x = (case x of None \<Rightarrow> False | Some s \<Rightarrow> s \<noteq> [])"

text \<open>
  \<open>String.prototype.trim\<close> removes leading and trailing white space and line
  terminators. Of these, the code units below 256 are TAB, LF, VT, FF, CR, SPACE and
  NBSP.
\<close>

definition js_whitespace :: "char \<Rightarrow> bool" where
  "js_whitespace c = ((of_char c :: nat) \<in> {9, 10, 11, 12, 13, 32, 160})"

definition trim :: "string \<Rightarrow> string" where
  "trim s = rev (dropWhile js_whitespace (rev (dropWhile js_whitespace s)))"

text \<open>\<open>x || d\<close> on an optional number: the default replaces \<open>undefined\<close> and \<open>0\<close>.\<close>

definition num_or :: "int option \<Rightarrow> int \<Rightarrow> int" where
  "num_or x d = (case x of None \<Rightarrow> d | Some n \<Rightarrow> if n = 0 then d else n)"

section \<open>Types (\<open>types/index.ts\<close>)\<close>

text \<open>
  Field names follow the source; a prefix is added where a source name is already taken
  in HOL (\<open>id\<close>, \<open>from\<close>) or is shared by two interfaces. \<open>metadata\<close> is an
  open object that the services only pass on: a list of key/value pairs.
\<close>

type_synonym metadata = "(string \<times> string) list"

record document =
  d_id :: "string option"
  d_tenantId :: string
  d_title :: string
  d_content :: string
  d_tags :: "string list option"
  d_metadata :: "metadata option"
  d_createdAt :: "string option"
  d_updatedAt :: "string option"

record document_index =
  tenant_id :: string
  doc_id :: string
  title :: string
  content :: string
  tags :: "string list option"
  metadata :: "metadata option"
  created_at :: string
  updated_at :: string

record search_query =
  sq_q :: string
  sq_offset :: "int option"
  sq_limit :: "int option"
  sq_tag :: "string option"
  sq_author :: "string option"
  sq_from :: "string option"
  sq_to :: "string option"

text \<open>The relevance score is a number that the service copies from the hit.\<close>

record search_result =
  sr_id :: string
  sr_title :: string
  sr_snippet :: string
  sr_score :: int
  sr_tags :: "string list"

record search_response =
  r_tenantId :: string
  r_query :: string
  r_offset :: int
  r_limit :: int
  r_total :: int
  r_results :: "search_result list"

section \<open>The query plan of \<open>OpenSearchService.search\<close>\<close>

text \<open>
  The clauses that \<open>search\<close> writes into the request body. \<open>Term f v\<close> is
  \<open>{ term: { f: v } }\<close>, \<open>Range f gte lte\<close> is \<open>{ range: { f: { gte, lte } } }\<close>
  with either bound possibly absent, \<open>Multi_match\<close> carries query, fields, type and
  operator, and \<open>Bool_should cs\<close> is \<open>{ bool: { should: cs } }\<close>.
\<close>

datatype clause =
  Term string string
| Range string "string option" "string option"
| Match_all
| Multi_match string "string list" string string
| Bool_should "clause list"

record highlight_field =
  hf_name :: string
  hf_fragment_size :: "nat option"
  hf_number_of_fragments :: "nat option"

record search_body =
  must :: "clause list"
  filter_clauses :: "clause list"
  from_offset :: int
  size_limit :: int
  source_fields :: "string list"
  highlight :: "highlight_field list"

text \<open>Lines 199-218: the full-text clause, or \<open>match_all\<close> when there is no query text.\<close>

definition text_clauses :: "search_query \<Rightarrow> clause list" where
  "text_clauses query =
     (if sq_q query \<noteq> [] \<and> trim (sq_q query) \<noteq> []
      then [Bool_should
              [Multi_match (sq_q query) [''title^3'', ''content'', ''tags^2'']
                 ''best_fields'' ''or'']]
      else [Match_all])"

text \<open>Lines 220-240: the optional filters, in the order the source pushes them.\<close>

definition extra_filters :: "search_query \<Rightarrow> clause list" where
  "extra_filters query =
     (if truthy (sq_tag query) then [Term ''tags'' (the (sq_tag query))] else []) @
     (if truthy (sq_author query)
      then [Term ''metadata.author'' (the (sq_author query))] else []) @
     (if truthy (sq_from query) \<or> truthy (sq_to query)
      then [Range ''created_at''
              (if truthy (sq_from query) then sq_from query else None)
              (if truthy (sq_to query) then sq_to query else None)]
      else [])"

text \<open>Lines 188-261: the request body handed to the engine.\<close>

definition build_search_body :: "string \<Rightarrow> search_query \<Rightarrow> search_body" where
  "build_search_body tenantId query =
     \<lparr> must = text_clauses query,
       filter_clauses = Term ''tenant_id'' tenantId # extra_filters query,
       from_offset = num_or (sq_offset query) 0,
       size_limit = min (num_or (sq_limit query) 10) 50,
       source_fields = [''doc_id'', ''title'', ''content'', ''tags'', ''metadata''],
       highlight =
         [\<lparr> hf_name = ''title'', hf_fragment_size = None, hf_number_of_fragments = None \<rparr>,
          \<lparr> hf_name = ''content'', hf_fragment_size = Some 150,
            hf_number_of_fragments = Some 1 \<rparr>] \<rparr>"

text \<open>The field a filter clause constrains.\<close>

fun clause_field :: "clause \<Rightarrow> string option" where
  "clause_field (Term f v) = Some f"
| "clause_field (Range f lo hi) = Some f"
| "clause_field c = None"


section \<open>Decimal numerals\<close>

text \<open>
  Template literals and \<open>JSON.stringify\<close> print an integer in decimal (integers
  below \<open>10^21\<close>, which covers millisecond clocks and page sizes).
\<close>

definition digit_char :: "nat \<Rightarrow> char" where
  "digit_char d = ''0123456789'' ! d"

fun show_nat :: "nat \<Rightarrow> string" where
  "show_nat n =
     (if n < 10 then [digit_char n]
      else show_nat (n div 10) @ [digit_char (n mod 10)])"

declare show_nat.simps [simp del]

definition show_int :: "int \<Rightarrow> string" where
  "show_int i = (if i < 0 then CHR ''-'' # show_nat (nat (- i)) else show_nat (nat i))"

section \<open>External systems\<close>

subsection \<open>The state of the process and of its two stores\<close>

datatype level = Debug | Info | Warn | Error

datatype metric = CacheHit string | CacheMiss string

text \<open>
  One record holds what the services read and write: the Redis server as the
  \<open>ioredis\<close> client sees it, the OpenSearch index, the log and the metric counters.
  \<^item> \<open>redis_kv\<close> maps a key to its value and the instant (epoch milliseconds) at which
    it expires, \<open>None\<close> for a key without expiry. The value type is a parameter, as the
    type argument of \<open>redisService.get<T>\<close> is: rate-limit counters are read at type
    \<open>int\<close>, cache entries at type \<open>cached\<close>. \<open>JSON.stringify\<close> on write and
    \<open>JSON.parse\<close> on read are taken to be inverse on the values stored.
  \<^item> A client call fails when the server is down (\<open>redis_up\<close> is false) or when the
    head of \<open>redis_faults\<close> is true; every client call consumes one element of
    \<open>redis_faults\<close>, so any pattern of failing calls can be written down.
  \<^item> The log keeps the level and the message of each \<open>logger\<close> call (not the
    metadata object).
\<close>

record 'v world =
  redis_up :: bool
  redis_faults :: "bool list"
  redis_kv :: "(string \<times> 'v \<times> nat option) list"
  os_up :: bool
  os_docs :: "(string \<times> document_index) list"
  log :: "(level \<times> string) list"
  metrics :: "metric list"

definition logger :: "level \<Rightarrow> string \<Rightarrow> 'v world \<Rightarrow> 'v world" where
  "logger l msg w = w\<lparr>log := log w @ [(l, msg)]\<rparr>"

definition record_metric :: "metric \<Rightarrow> 'v world \<Rightarrow> 'v world" where
  "record_metric m w = w\<lparr>metrics := metrics w @ [m]\<rparr>"

subsection \<open>The \<open>ioredis\<close> client\<close>

datatype redis_error = Redis_error

definition call_fails :: "'v world \<Rightarrow> bool" where
  "call_fails w = (\<not> redis_up w \<or> (case redis_faults w of [] \<Rightarrow> False | f # fs \<Rightarrow> f))"

definition consume :: "'v world \<Rightarrow> 'v world" where
  "consume w = w\<lparr>redis_faults := tl (redis_faults w)\<rparr>"

definition live :: "nat \<Rightarrow> nat option \<Rightarrow> bool" where
  "live now expiry = (case expiry of None \<Rightarrow> True | Some e \<Rightarrow> now < e)"

definition lookup_live :: "nat \<Rightarrow> string \<Rightarrow> (string \<times> 'v \<times> nat option) list \<Rightarrow> 'v option" where
  "lookup_live now key kv =
     (case map_of kv key of
        None \<Rightarrow> None
      | Some (v, e) \<Rightarrow> if live now e then Some v else None)"

definition client_get :: "nat \<Rightarrow> string \<Rightarrow> 'v world \<Rightarrow> (redis_error + 'v option) \<times> 'v world" where
  "client_get now key w =
     (if call_fails w then (Inl Redis_error, consume w)
      else (Inr (lookup_live now key (redis_kv w)), consume w))"

definition client_setex :: "nat \<Rightarrow> string \<Rightarrow> nat \<Rightarrow> 'v \<Rightarrow> 'v world \<Rightarrow> (redis_error + unit) \<times> 'v world" where
  "client_setex now key ttlSeconds v w =
     (if call_fails w then (Inl Redis_error, consume w)
      else (Inr (),
            consume (w\<lparr>redis_kv :=
              AList.update key (v, Some (now + 1000 * ttlSeconds)) (redis_kv w)\<rparr>)))"

definition client_set :: "string \<Rightarrow> 'v \<Rightarrow> 'v world \<Rightarrow> (redis_error + unit) \<times> 'v world" where
  "client_set key v w =
     (if call_fails w then (Inl Redis_error, consume w)
      else (Inr (), consume (w\<lparr>redis_kv := AList.update key (v, None) (redis_kv w)\<rparr>)))"

text \<open>\<open>DEL k1 ... kn\<close> answers the number of keys it removed.\<close>

definition client_del :: "nat \<Rightarrow> string list \<Rightarrow> 'v world \<Rightarrow> (redis_error + nat) \<times> 'v world" where
  "client_del now keys w =
     (if call_fails w then (Inl Redis_error, consume w)
      else (Inr (length (filter (\<lambda>k. lookup_live now k (redis_kv w) \<noteq> None) (remdups keys))),
            consume (w\<lparr>redis_kv := filter (\<lambda>(k, e). k \<notin> set keys) (redis_kv w)\<rparr>)))"

text \<open>
  \<open>KEYS pattern\<close> for the patterns the service builds: a literal text followed by one
  \<open>*\<close>. (A tenant identifier contains no glob character.)
\<close>

definition glob_match :: "string \<Rightarrow> string \<Rightarrow> bool" where
  "glob_match pattern key =
     (if pattern \<noteq> [] \<and> last pattern = CHR ''*'' then prefix (butlast pattern) key
      else pattern = key)"

definition client_keys :: "nat \<Rightarrow> string \<Rightarrow> 'v world \<Rightarrow> (redis_error + string list) \<times> 'v world" where
  "client_keys now pattern w =
     (if call_fails w then (Inl Redis_error, consume w)
      else (Inr (filter (\<lambda>k. glob_match pattern k \<and> lookup_live now k (redis_kv w) \<noteq> None)
                   (remdups (map fst (redis_kv w)))),
            consume w))"

subsection \<open>The OpenSearch client\<close>

text \<open>
  An error of the client carries an optional \<open>statusCode\<close>. A document that is not in
  the index gives status 404 on \<open>get\<close> and \<open>delete\<close>; an engine that cannot be
  reached gives an error without status.
\<close>

datatype os_error = Os_error "nat option"

fun statusCode :: "os_error \<Rightarrow> nat option" where
  "statusCode (Os_error c) = c"

definition os_index :: "string \<Rightarrow> document_index \<Rightarrow> 'v world \<Rightarrow> os_error + 'v world" where
  "os_index ident body w =
     (if \<not> os_up w then Inl (Os_error None)
      else Inr (w\<lparr>os_docs := AList.update ident body (os_docs w)\<rparr>))"

definition os_get :: "string \<Rightarrow> 'v world \<Rightarrow> os_error + document_index" where
  "os_get ident w =
     (if \<not> os_up w then Inl (Os_error None)
      else case map_of (os_docs w) ident of
             None \<Rightarrow> Inl (Os_error (Some 404))
           | Some source \<Rightarrow> Inr source)"

definition os_delete :: "string \<Rightarrow> 'v world \<Rightarrow> os_error + 'v world" where
  "os_delete ident w =
     (if \<not> os_up w then Inl (Os_error None)
      else case map_of (os_docs w) ident of
             None \<Rightarrow> Inl (Os_error (Some 404))
           | Some source \<Rightarrow> Inr (w\<lparr>os_docs := AList.delete ident (os_docs w)\<rparr>))"

text \<open>
  A hit of a search response. How the engine selects and scores hits is outside the
  service: the functions below take it as the parameter \<open>engine\<close>, from the request
  body and the index to the hits and the total.
\<close>

record hit =
  h_doc_id :: string
  h_title :: string
  h_content :: string
  h_tags :: "string list option"
  h_highlight_content :: "string list option"
  h_highlight_title :: "string list option"
  h_score :: int

type_synonym engine = "search_body \<Rightarrow> (string \<times> document_index) list \<Rightarrow> hit list \<times> int"

definition os_search :: "engine \<Rightarrow> search_body \<Rightarrow> 'v world \<Rightarrow> os_error + hit list \<times> int" where
  "os_search engine body w =
     (if \<not> os_up w then Inl (Os_error None) else Inr (engine body (os_docs w)))"


section \<open>\<open>RedisService\<close> (\<open>services/redis.service.ts\<close>)\<close>

text \<open>
  Every method catches the client's error, logs it and answers a default. \<open>get\<close>
  answers \<open>null\<close> (\<open>None\<close>) for a missing key as well; a stored value is the
  text \<open>JSON.stringify\<close> produced, which is never empty and always parses. The
  clock reading \<open>now\<close> is passed to the client so that expiry can be decided.
\<close>

definition redis_get :: "nat \<Rightarrow> string \<Rightarrow> 'v world \<Rightarrow> 'v option \<times> 'v world" where
  "redis_get now key w =
     (case client_get now key w of
        (Inr value, w') \<Rightarrow> (value, w')
      | (Inl e, w') \<Rightarrow> (None, logger Error ''Redis get error'' w'))"

definition redis_set :: "nat \<Rightarrow> string \<Rightarrow> 'v \<Rightarrow> nat option \<Rightarrow> 'v world \<Rightarrow> bool \<times> 'v world" where
  "redis_set now key v ttlSeconds w =
     (case (case ttlSeconds of
              Some t \<Rightarrow> if t \<noteq> 0 then client_setex now key t v w else client_set key v w
            | None \<Rightarrow> client_set key v w) of
        (Inr u, w') \<Rightarrow> (True, w')
      | (Inl e, w') \<Rightarrow> (False, logger Error ''Redis set error'' w'))"

definition redis_del :: "nat \<Rightarrow> string \<Rightarrow> 'v world \<Rightarrow> bool \<times> 'v world" where
  "redis_del now key w =
     (case client_del now [key] w of
        (Inr n, w') \<Rightarrow> (True, w')
      | (Inl e, w') \<Rightarrow> (False, logger Error ''Redis delete error'' w'))"

definition redis_delPattern :: "nat \<Rightarrow> string \<Rightarrow> 'v world \<Rightarrow> nat \<times> 'v world" where
  "redis_delPattern now pattern w =
     (case client_keys now pattern w of
        (Inl e, w') \<Rightarrow> (0, logger Error ''Redis delete pattern error'' w')
      | (Inr keys, w') \<Rightarrow>
          if length keys = 0 then (0, w')
          else (case client_del now keys w' of
                  (Inr n, w'') \<Rightarrow> (n, w'')
                | (Inl e, w'') \<Rightarrow> (0, logger Error ''Redis delete pattern error'' w'')))"

section \<open>Hashing (\<open>utils/hash.ts\<close>)\<close>

text \<open>
  \<open>hashQuery\<close> serialises \<open>{ query, filters }\<close> with \<open>JSON.stringify\<close> and
  hashes the text with SHA-256. The digest is the parameter \<open>sha256_hex\<close>. The
  serialisation is written out for the one shape the cache service passes: the four
  optional string filters followed by \<open>offset\<close> and \<open>limit\<close>, a property whose
  value is \<open>undefined\<close> being left out.
\<close>

record cache_filters =
  f_tag :: "string option"
  f_author :: "string option"
  f_from :: "string option"
  f_to :: "string option"

definition hex_digit :: "nat \<Rightarrow> char" where
  "hex_digit n = ''0123456789abcdef'' ! n"

definition json_escape_char :: "char \<Rightarrow> string" where
  "json_escape_char c =
     (let n = (of_char c :: nat) in
      if c = CHR ''\"'' then [CHR 0x5C, CHR ''\"'']
      else if n = 0x5C then [CHR 0x5C, CHR 0x5C]
      else if n = 8 then [CHR 0x5C, CHR ''b'']
      else if n = 9 then [CHR 0x5C, CHR ''t'']
      else if n = 10 then [CHR 0x5C, CHR ''n'']
      else if n = 12 then [CHR 0x5C, CHR ''f'']
      else if n = 13 then [CHR 0x5C, CHR ''r'']
      else if n < 32 then [CHR 0x5C, CHR ''u'', CHR ''0'', CHR ''0'',
                           hex_digit (n div 16), hex_digit (n mod 16)]
      else [c])"

definition json_string :: "string \<Rightarrow> string" where
  "json_string s = [CHR ''\"''] @ concat (map json_escape_char s) @ [CHR ''\"'']"

definition json_property :: "string \<Rightarrow> string option \<Rightarrow> string list" where
  "json_property name v =
     (case v of None \<Rightarrow> [] | Some s \<Rightarrow> [json_string name @ '':'' @ json_string s])"

fun join_commas :: "string list \<Rightarrow> string" where
  "join_commas [] = []"
| "join_commas [x] = x"
| "join_commas (x # y # ys) = x @ '','' @ join_commas (y # ys)"

definition stringify_query :: "string \<Rightarrow> cache_filters \<Rightarrow> int \<Rightarrow> int \<Rightarrow> string" where
  "stringify_query query filters offset limit =
     ''{'' @ json_string ''query'' @ '':'' @ json_string query @ '','' @
     json_string ''filters'' @ '':{'' @
     join_commas
       (json_property ''tag'' (f_tag filters) @
        json_property ''author'' (f_author filters) @
        json_property ''from'' (f_from filters) @
        json_property ''to'' (f_to filters) @
        [json_string ''offset'' @ '':'' @ show_int offset,
         json_string ''limit'' @ '':'' @ show_int limit]) @
     ''}}''"

definition hashString :: "(string \<Rightarrow> string) \<Rightarrow> string \<Rightarrow> string" where
  "hashString sha256_hex input = sha256_hex input"

definition hashQuery :: "(string \<Rightarrow> string) \<Rightarrow> string \<Rightarrow> cache_filters \<Rightarrow> int \<Rightarrow> int \<Rightarrow> string" where
  "hashQuery sha256_hex query filters offset limit =
     hashString sha256_hex (stringify_query query filters offset limit)"

section \<open>\<open>CacheService\<close> (\<open>services/cache.service.ts\<close>)\<close>

datatype cached = CDocument document | CSearch search_response

record config =
  windowMs :: nat
  maxRequests :: int
  ttlSeconds :: nat
  searchTtlSeconds :: nat

definition getSearchKey :: "(string \<Rightarrow> string) \<Rightarrow> string \<Rightarrow> string \<Rightarrow> cache_filters \<Rightarrow> int \<Rightarrow> int \<Rightarrow> string" where
  "getSearchKey sha256_hex tenantId query filters offset limit =
     ''search:'' @ tenantId @ '':'' @ hashQuery sha256_hex query filters offset limit"

definition getDocumentKey :: "string \<Rightarrow> string \<Rightarrow> string" where
  "getDocumentKey tenantId docId = ''doc:'' @ tenantId @ '':'' @ docId"

text \<open>
  A cached object is always truthy, so \<open>if (cached)\<close> is the test for a value.
\<close>

definition getSearchResult ::
  "(string \<Rightarrow> string) \<Rightarrow> nat \<Rightarrow> string \<Rightarrow> string \<Rightarrow> cache_filters \<Rightarrow> int \<Rightarrow> int \<Rightarrow>
   cached world \<Rightarrow> cached option \<times> cached world" where
  "getSearchResult sha256_hex now tenantId query filters offset limit w =
     (case redis_get now (getSearchKey sha256_hex tenantId query filters offset limit) w of
        (Some c, w') \<Rightarrow>
          (Some c, record_metric (CacheHit ''search'') (logger Debug ''Cache hit for search'' w'))
      | (None, w') \<Rightarrow> (None, record_metric (CacheMiss ''search'') w'))"

definition setSearchResult ::
  "(string \<Rightarrow> string) \<Rightarrow> config \<Rightarrow> nat \<Rightarrow> string \<Rightarrow> string \<Rightarrow> cache_filters \<Rightarrow> int \<Rightarrow> int \<Rightarrow>
   search_response \<Rightarrow> cached world \<Rightarrow> cached world" where
  "setSearchResult sha256_hex cfg now tenantId query filters offset limit result w =
     logger Debug ''Cached search result''
       (snd (redis_set now (getSearchKey sha256_hex tenantId query filters offset limit)
               (CSearch result) (Some (searchTtlSeconds cfg)) w))"

definition cache_getDocument :: "nat \<Rightarrow> string \<Rightarrow> string \<Rightarrow> cached world \<Rightarrow> cached option \<times> cached world" where
  "cache_getDocument now tenantId docId w =
     (case redis_get now (getDocumentKey tenantId docId) w of
        (Some c, w') \<Rightarrow>
          (Some c, record_metric (CacheHit ''document'') (logger Debug ''Cache hit for document'' w'))
      | (None, w') \<Rightarrow> (None, record_metric (CacheMiss ''document'') w'))"

definition setDocument :: "config \<Rightarrow> nat \<Rightarrow> string \<Rightarrow> string \<Rightarrow> document \<Rightarrow> cached world \<Rightarrow> cached world" where
  "setDocument cfg now tenantId docId doc w =
     logger Debug ''Cached document''
       (snd (redis_set now (getDocumentKey tenantId docId) (CDocument doc)
               (Some (ttlSeconds cfg)) w))"

definition invalidateDocument :: "nat \<Rightarrow> string \<Rightarrow> string \<Rightarrow> cached world \<Rightarrow> cached world" where
  "invalidateDocument now tenantId docId w =
     logger Debug ''Invalidated document cache''
       (snd (redis_del now (getDocumentKey tenantId docId) w))"

definition invalidateTenantSearches :: "nat \<Rightarrow> string \<Rightarrow> cached world \<Rightarrow> cached world" where
  "invalidateTenantSearches now tenantId w =
     logger Debug ''Invalidated tenant search cache''
       (snd (redis_delPattern now (''search:'' @ tenantId @ '':*'') w))"


section \<open>\<open>OpenSearchService\<close> (\<open>services/opensearch.service.ts\<close>)\<close>

text \<open>The identifier under which a tenant's document is stored in the index.\<close>

definition index_id :: "string \<Rightarrow> string \<Rightarrow> string" where
  "index_id tenantId docId = tenantId @ ''_'' @ docId"

text \<open>\<open>s || d\<close> on an optional string: the default replaces \<open>undefined\<close> and \<open>''\<close>.\<close>

definition str_or :: "string option \<Rightarrow> string \<Rightarrow> string" where
  "str_or x d = (if truthy x then the x else d)"

text \<open>
  \<open>indexDocument\<close>. The clock reading \<open>nowIso\<close> and the identifier \<open>generated\<close>
  that \<open>generateDocId\<close> would produce are parameters.
\<close>

definition indexDocument ::
  "string \<Rightarrow> string \<Rightarrow> string \<Rightarrow> document \<Rightarrow> 'v world \<Rightarrow> (os_error + unit) \<times> 'v world" where
  "indexDocument nowIso generated tenantId doc w =
     (let docId = str_or (d_id doc) generated;
          indexDoc = \<lparr> tenant_id = tenantId, doc_id = docId, title = d_title doc,
                       content = d_content doc,
                       tags = Some (case d_tags doc of None \<Rightarrow> [] | Some ts \<Rightarrow> ts),
                       metadata = Some (case d_metadata doc of None \<Rightarrow> [] | Some m \<Rightarrow> m),
                       created_at = str_or (d_createdAt doc) nowIso,
                       updated_at = str_or (d_updatedAt doc) nowIso \<rparr>
      in case os_index (index_id tenantId docId) indexDoc w of
           Inr w' \<Rightarrow> (Inr (), logger Info ''Document indexed'' w')
         | Inl e \<Rightarrow> (Inl e, logger Error ''Failed to index document'' w))"

definition mapIndexToDocument :: "document_index \<Rightarrow> document" where
  "mapIndexToDocument source =
     \<lparr> d_id = Some (doc_id source), d_tenantId = tenant_id source, d_title = title source,
       d_content = content source, d_tags = tags source, d_metadata = metadata source,
       d_createdAt = Some (created_at source), d_updatedAt = Some (updated_at source) \<rparr>"

definition getDocument :: "string \<Rightarrow> string \<Rightarrow> 'v world \<Rightarrow> (os_error + document option) \<times> 'v world" where
  "getDocument tenantId docId w =
     (case os_get (index_id tenantId docId) w of
        Inr source \<Rightarrow>
          if tenant_id source \<noteq> tenantId
          then (Inr None, logger Warn ''Tenant mismatch on document retrieval'' w)
          else (Inr (Some (mapIndexToDocument source)), w)
      | Inl e \<Rightarrow>
          if statusCode e = Some 404 then (Inr None, w)
          else (Inl e, logger Error ''Failed to get document'' w))"

definition deleteDocument :: "string \<Rightarrow> string \<Rightarrow> 'v world \<Rightarrow> (os_error + bool) \<times> 'v world" where
  "deleteDocument tenantId docId w =
     (case os_delete (index_id tenantId docId) w of
        Inr w' \<Rightarrow> (Inr True, logger Info ''Document deleted'' w')
      | Inl e \<Rightarrow>
          if statusCode e = Some 404
          then (Inr False, logger Debug ''Document not found for deletion'' w)
          else (Inl e, logger Error ''Failed to delete document'' w))"

text \<open>Lines 271-292: a hit becomes a result; the snippet prefers a highlight.\<close>

definition snippet_of :: "hit \<Rightarrow> string" where
  "snippet_of h =
     (case h_highlight_content h of
        Some (x # xs) \<Rightarrow> x
      | _ \<Rightarrow>
        (case h_highlight_title h of
           Some (y # ys) \<Rightarrow> y
         | _ \<Rightarrow> take 150 (h_content h) @ (if length (h_content h) > 150 then ''...'' else [])))"

definition hit_to_result :: "hit \<Rightarrow> search_result" where
  "hit_to_result h =
     \<lparr> sr_id = h_doc_id h, sr_title = h_title h, sr_snippet = snippet_of h,
       sr_score = h_score h,
       sr_tags = (case h_tags h of None \<Rightarrow> [] | Some ts \<Rightarrow> ts) \<rparr>"

definition search ::
  "engine \<Rightarrow> string \<Rightarrow> search_query \<Rightarrow> 'v world \<Rightarrow> (os_error + search_result list \<times> int) \<times> 'v world" where
  "search engine tenantId query w =
     (case os_search engine (build_search_body tenantId query) w of
        Inr (hits, tot) \<Rightarrow> (Inr (map hit_to_result hits, tot), w)
      | Inl e \<Rightarrow> (Inl e, logger Error ''Search failed'' w))"

section \<open>Errors and responses of the routes\<close>

text \<open>
  A handler either sends a response (status and body) or passes an error to
  \<open>next\<close>: an \<open>AppError\<close> with its status and message, or the error an awaited
  service call threw. \<open>errorHandler\<close> turns the error into the response the caller
  sees. Where the source appends the validator's own description to a message, the
  model keeps the fixed part.
\<close>

datatype route_error = AppError nat string | Thrown os_error

datatype body =
  Status_body string string string
| Document_body document
| Cached_body cached
| Search_body search_response
| Error_body string

type_synonym response = "nat \<times> body"

definition errorHandler :: "route_error \<Rightarrow> 'v world \<Rightarrow> response \<times> 'v world" where
  "errorHandler err w =
     (case err of
        AppError status msg \<Rightarrow> ((status, Error_body msg), logger Error ''Application error'' w)
      | Thrown e \<Rightarrow> ((500, Error_body ''Internal server error''), logger Error ''Unhandled error'' w))"

section \<open>Document routes (\<open>routes/documents.routes.ts\<close>)\<close>

text \<open>
  \<open>DocumentSchema\<close> on a body whose properties have the right types: the title has
  1 to 500 characters and the content 1 to 100000.
\<close>

record document_input =
  in_id :: "string option"
  in_title :: string
  in_content :: string
  in_tags :: "string list option"
  in_metadata :: "metadata option"

definition DocumentSchema_ok :: "document_input \<Rightarrow> bool" where
  "DocumentSchema_ok b =
     (1 \<le> length (in_title b) \<and> length (in_title b) \<le> 500 \<and>
      1 \<le> length (in_content b) \<and> length (in_content b) \<le> 100000)"

definition post_document ::
  "string \<Rightarrow> string \<Rightarrow> nat \<Rightarrow> string option \<Rightarrow> document_input \<Rightarrow> cached world \<Rightarrow>
   (route_error + response) \<times> cached world" where
  "post_document nowIso generated now tenant b w =
     (if \<not> truthy tenant then (Inl (AppError 400 ''Tenant ID is required''), w)
      else if \<not> DocumentSchema_ok b then (Inl (AppError 400 ''Validation error''), w)
      else
        let tenantId = the tenant;
            doc = \<lparr> d_id = in_id b, d_tenantId = tenantId, d_title = in_title b,
                    d_content = in_content b, d_tags = in_tags b,
                    d_metadata = in_metadata b,
                    d_createdAt = Some nowIso, d_updatedAt = Some nowIso \<rparr>
        in case indexDocument nowIso generated tenantId doc w of
             (Inl e, w1) \<Rightarrow> (Inl (Thrown e), w1)
           | (Inr u, w1) \<Rightarrow>
               let docId = str_or (d_id doc) ''generated'';
                   w2 = invalidateTenantSearches now tenantId w1;
                   w3 = logger Info ''Document created'' w2
               in (Inr (201, Status_body docId tenantId ''indexed''), w3))"

definition get_document ::
  "config \<Rightarrow> nat \<Rightarrow> string option \<Rightarrow> string \<Rightarrow> cached world \<Rightarrow>
   (route_error + response) \<times> cached world" where
  "get_document cfg now tenant docId w =
     (if \<not> truthy tenant then (Inl (AppError 400 ''Tenant ID is required''), w)
      else
        let tenantId = the tenant in
        case cache_getDocument now tenantId docId w of
          (Some c, w1) \<Rightarrow> (Inr (200, Cached_body c), w1)
        | (None, w1) \<Rightarrow>
            (case getDocument tenantId docId w1 of
               (Inl e, w2) \<Rightarrow> (Inl (Thrown e), w2)
             | (Inr None, w2) \<Rightarrow> (Inl (AppError 404 ''Document not found''), w2)
             | (Inr (Some doc), w2) \<Rightarrow>
                 (Inr (200, Document_body doc), setDocument cfg now tenantId docId doc w2)))"

definition delete_document ::
  "nat \<Rightarrow> string option \<Rightarrow> string \<Rightarrow> cached world \<Rightarrow> (route_error + response) \<times> cached world" where
  "delete_document now tenant docId w =
     (if \<not> truthy tenant then (Inl (AppError 400 ''Tenant ID is required''), w)
      else
        let tenantId = the tenant in
        case deleteDocument tenantId docId w of
          (Inl e, w1) \<Rightarrow> (Inl (Thrown e), w1)
        | (Inr deleted, w1) \<Rightarrow>
            let w2 = invalidateDocument now tenantId docId w1;
                w3 = invalidateTenantSearches now tenantId w2;
                w4 = logger Info ''Document deleted'' w3
            in (Inr (200, Status_body docId tenantId
                       (if deleted then ''deleted'' else ''not_found_or_deleted'')), w4))"


section \<open>Search route (\<open>routes/search.routes.ts\<close>)\<close>

text \<open>
  A property of \<open>req.query\<close> is absent, a string, or something else (an array or an
  object, when the parameter is repeated or nested).
\<close>

datatype qparam = Absent | Str string | NonString

record search_request =
  rq_q :: qparam
  rq_offset :: qparam
  rq_limit :: qparam
  rq_tag :: qparam
  rq_author :: qparam
  rq_from :: qparam
  rq_to :: qparam

record search_params =
  p_q :: "string option"
  p_offset :: "int option"
  p_limit :: "int option"
  p_tag :: "string option"
  p_author :: "string option"
  p_from :: "string option"
  p_to :: "string option"

text \<open>
  The three kinds of property of \<open>SearchQuerySchema\<close>; the outer \<open>None\<close> is a
  validation failure. \<open>/^\d+$/\<close> accepts one or more decimal digits and nothing
  else, \<open>Number\<close> reads them in decimal (exact for values below \<open>2^53\<close>).
\<close>

definition is_digit :: "char \<Rightarrow> bool" where
  "is_digit c = (48 \<le> (of_char c :: nat) \<and> (of_char c :: nat) \<le> 57)"

definition digits_only :: "string \<Rightarrow> bool" where
  "digits_only s = (s \<noteq> [] \<and> list_all is_digit s)"

definition to_number :: "string \<Rightarrow> nat" where
  "to_number s = foldl (\<lambda>a c. 10 * a + (of_char c - 48)) 0 s"

definition optional_string :: "qparam \<Rightarrow> string option option" where
  "optional_string x =
     (case x of Absent \<Rightarrow> Some None | Str s \<Rightarrow> Some (Some s) | NonString \<Rightarrow> None)"

definition optional_nonempty :: "qparam \<Rightarrow> string option option" where
  "optional_nonempty x =
     (case x of
        Absent \<Rightarrow> Some None
      | Str s \<Rightarrow> if 1 \<le> length s then Some (Some s) else None
      | NonString \<Rightarrow> None)"

definition optional_number :: "qparam \<Rightarrow> int option option" where
  "optional_number x =
     (case x of
        Absent \<Rightarrow> Some None
      | Str s \<Rightarrow> if digits_only s then Some (Some (int (to_number s))) else None
      | NonString \<Rightarrow> None)"

definition SearchQuerySchema :: "search_request \<Rightarrow> search_params option" where
  "SearchQuerySchema r =
     Option.bind (optional_nonempty (rq_q r)) (\<lambda>q.
     Option.bind (optional_number (rq_offset r)) (\<lambda>off.
     Option.bind (optional_number (rq_limit r)) (\<lambda>lim.
     Option.bind (optional_string (rq_tag r)) (\<lambda>tg.
     Option.bind (optional_string (rq_author r)) (\<lambda>au.
     Option.bind (optional_string (rq_from r)) (\<lambda>fr.
     Option.bind (optional_string (rq_to r)) (\<lambda>to.
       Some \<lparr> p_q = q, p_offset = off, p_limit = lim, p_tag = tg, p_author = au,
              p_from = fr, p_to = to \<rparr>)))))))"

text \<open>Lines 184-197: the query object, with defaults, and the cap on \<open>limit\<close>.\<close>

definition make_query :: "search_params \<Rightarrow> search_query" where
  "make_query d =
     (let query = \<lparr> sq_q = str_or (p_q d) [],
                     sq_offset = Some (num_or (p_offset d) 0),
                     sq_limit = Some (num_or (p_limit d) 10),
                     sq_tag = p_tag d, sq_author = p_author d,
                     sq_from = p_from d, sq_to = p_to d \<rparr>
      in if num_or (sq_limit query) 0 \<noteq> 0 \<and> num_or (sq_limit query) 0 > 50
         then query\<lparr>sq_limit := Some 50\<rparr> else query)"

definition get_search ::
  "(string \<Rightarrow> string) \<Rightarrow> engine \<Rightarrow> config \<Rightarrow> nat \<Rightarrow> string option \<Rightarrow> search_request \<Rightarrow>
   cached world \<Rightarrow> (route_error + response) \<times> cached world" where
  "get_search sha256_hex engine cfg now tenant req w =
     (if \<not> truthy tenant then (Inl (AppError 400 ''Tenant ID is required''), w)
      else case SearchQuerySchema req of
        None \<Rightarrow> (Inl (AppError 400 ''Invalid query parameters''), w)
      | Some d \<Rightarrow>
          let tenantId = the tenant;
              query = make_query d;
              filters = \<lparr> f_tag = sq_tag query, f_author = sq_author query,
                          f_from = sq_from query, f_to = sq_to query \<rparr>;
              off = num_or (sq_offset query) 0;
              lim = num_or (sq_limit query) 10
          in case getSearchResult sha256_hex now tenantId (sq_q query) filters off lim w of
               (Some c, w1) \<Rightarrow> (Inr (200, Cached_body c), w1)
             | (None, w1) \<Rightarrow>
                 (case search engine tenantId query w1 of
                    (Inl e, w2) \<Rightarrow> (Inl (Thrown e), w2)
                  | (Inr (results, tot), w2) \<Rightarrow>
                      let resp = \<lparr> r_tenantId = tenantId, r_query = sq_q query,
                                   r_offset = off, r_limit = lim, r_total = tot,
                                   r_results = results \<rparr>;
                          w3 = setSearchResult sha256_hex cfg now tenantId (sq_q query)
                                 filters off lim resp w2;
                          w4 = logger Info ''Search performed'' w3
                      in (Inr (200, Search_body resp), w4)))"

section \<open>Rate limiter (\<open>middleware/rateLimiter.ts\<close>)\<close>

datatype header =
  X_RateLimit_Limit int
| X_RateLimit_Remaining int
| X_RateLimit_Reset nat
| Retry_After nat

text \<open>The error of a rejected request.\<close>

definition rate_limit_exceeded :: route_error where
  "rate_limit_exceeded = AppError 429 ''Rate limit exceeded''"

text \<open>
  What the middleware did: the argument it passed to \<open>next\<close> (\<open>None\<close> for a plain
  \<open>next()\<close>, which lets the request through) and the headers it set, in order.
\<close>

record limiter_result =
  rl_next :: "route_error option"
  rl_headers :: "header list"

text \<open>\<open>Math.ceil(a / b)\<close> for natural numbers.\<close>

definition ceil_div :: "nat \<Rightarrow> nat \<Rightarrow> nat" where
  "ceil_div a b = (a + b - 1) div b"

definition windowStart_of :: "config \<Rightarrow> nat \<Rightarrow> nat" where
  "windowStart_of cfg now = (now div windowMs cfg) * windowMs cfg"

definition countKey :: "string \<Rightarrow> nat \<Rightarrow> string" where
  "countKey tenantId windowStart = (''ratelimit:'' @ tenantId) @ '':'' @ show_nat windowStart"

text \<open>
  The body of the middleware over the two methods of \<open>redisService\<close> it calls, so
  that a method which rejects (\<open>Inl\<close>, as the mocked service of the tests does) can
  be written down as well as the real one. \<open>now\<close> is the reading of \<open>Date.now()\<close>.
  Clock readings and the window size are natural numbers and counts are integers: on
  such values below \<open>2^53\<close> the floating-point operations of the source are exact,
  \<open>Math.floor(now / windowMs)\<close> is integer division and \<open>Math.ceil(a / 1000)\<close>
  is \<open>ceil_div a 1000\<close>. The window size is taken to be positive (with window size
  0 the source computes with \<open>NaN\<close>). The message of the 429 error is kept without
  the numbers the source interpolates.
\<close>

type_synonym counter_get = "nat \<Rightarrow> string \<Rightarrow> int world \<Rightarrow> (string + int option) \<times> int world"

type_synonym counter_set =
  "nat \<Rightarrow> string \<Rightarrow> int \<Rightarrow> nat option \<Rightarrow> int world \<Rightarrow> (string + bool) \<times> int world"

definition rateLimiter_with ::
  "counter_get \<Rightarrow> counter_set \<Rightarrow> config \<Rightarrow> nat \<Rightarrow> string option \<Rightarrow> int world \<Rightarrow>
   limiter_result \<times> int world" where
  "rateLimiter_with get_count set_count cfg now tenant w =
     (if \<not> truthy tenant then (\<lparr> rl_next = None, rl_headers = [] \<rparr>, w)
      else
        let tenantId = the tenant;
            windowStart = windowStart_of cfg now;
            resetTime = windowStart + windowMs cfg;
            countKey = countKey tenantId windowStart
        in case get_count now countKey w of
             (Inl msg, w1) \<Rightarrow>
               (\<lparr> rl_next = None, rl_headers = [] \<rparr>, logger Error ''Rate limiter error'' w1)
           | (Inr v, w1) \<Rightarrow>
               let currentCount = num_or v 0 in
               if currentCount \<ge> maxRequests cfg
               then
                 (\<lparr> rl_next = Some rate_limit_exceeded,
                    rl_headers = [X_RateLimit_Limit (maxRequests cfg), X_RateLimit_Remaining 0,
                                  X_RateLimit_Reset resetTime,
                                  Retry_After (ceil_div (resetTime - now) 1000)] \<rparr>,
                  logger Warn ''Rate limit exceeded'' w1)
               else
                 let newCount = currentCount + 1 in
                 case set_count now countKey newCount (Some (ceil_div (windowMs cfg) 1000)) w1 of
                   (Inl msg, w2) \<Rightarrow>
                     (\<lparr> rl_next = None, rl_headers = [] \<rparr>,
                      logger Error ''Rate limiter error'' w2)
                 | (Inr b, w2) \<Rightarrow>
                     (\<lparr> rl_next = None,
                        rl_headers = [X_RateLimit_Limit (maxRequests cfg),
                                      X_RateLimit_Remaining (max 0 (maxRequests cfg - newCount)),
                                      X_RateLimit_Reset resetTime] \<rparr>, w2))"

text \<open>The middleware as deployed: on the real \<open>RedisService\<close>, whose methods never reject.\<close>

definition service_get :: counter_get where
  "service_get now key w = (case redis_get now key w of (v, w') \<Rightarrow> (Inr v, w'))"

definition service_set :: counter_set where
  "service_set now key v ttl w = (case redis_set now key v ttl w of (b, w') \<Rightarrow> (Inr b, w'))"

definition rateLimiter :: "config \<Rightarrow> nat \<Rightarrow> string option \<Rightarrow> int world \<Rightarrow> limiter_result \<times> int world" where
  "rateLimiter = rateLimiter_with service_get service_set"

text \<open>A run of the middleware for one tenant at successive clock readings.\<close>

fun run_limiter :: "config \<Rightarrow> string option \<Rightarrow> nat list \<Rightarrow> int world \<Rightarrow> limiter_result list \<times> int world" where
  "run_limiter cfg tenant [] w = ([], w)"
| "run_limiter cfg tenant (now # ts) w =
     (case rateLimiter cfg now tenant w of
        (r, w') \<Rightarrow> (case run_limiter cfg tenant ts w' of (rs, w'') \<Rightarrow> (r # rs, w'')))"

text \<open>\<open>TenantIdSchema\<close> (\<open>middleware/tenant.ts\<close>): 1 to 100 characters of \<open>[a-zA-Z0-9_-]\<close>.\<close>

definition tenant_char :: "char \<Rightarrow> bool" where
  "tenant_char c =
     (let n = (of_char c :: nat) in
      (97 \<le> n \<and> n \<le> 122) \<or> (65 \<le> n \<and> n \<le> 90) \<or> (48 \<le> n \<and> n \<le> 57) \<or>
      c = CHR ''_'' \<or> c = CHR ''-'')"

definition TenantIdSchema :: "string \<Rightarrow> bool" where
  "TenantIdSchema s = (1 \<le> length s \<and> length s \<le> 100 \<and> list_all tenant_char s)"


section \<open>Configurations and states used in examples\<close>

text \<open>
  The defaults of \<open>config/index.ts\<close>, the configuration of the rate limiter's
  integration test, and a state in which both stores are reachable and empty.
\<close>

definition default_config :: config where
  "default_config = \<lparr> windowMs = 60000, maxRequests = 100, ttlSeconds = 60,
                       searchTtlSeconds = 120 \<rparr>"

definition test_config :: config where
  "test_config = \<lparr> windowMs = 1000, maxRequests = 5, ttlSeconds = 60,
                    searchTtlSeconds = 120 \<rparr>"

definition empty_world :: "'v world" where
  "empty_world = \<lparr> redis_up = True, redis_faults = [], redis_kv = [], os_up = True,
                    os_docs = [], log = [], metrics = [] \<rparr>"

text \<open>
  Inputs of the examples: a query with every optional filter, three engines (one that
  finds nothing, one that finds one document, and one that answers differently when
  the tenant filter is missing), a digest that stands in for SHA-256, a method of the
  Redis service that rejects, requests that differ in their \<open>limit\<close>, and a document
  in three versions of the stores.
\<close>

definition query_with_filters :: search_query where
  "query_with_filters =
     \<lparr> sq_q = ''payment'', sq_offset = Some 0, sq_limit = Some 10, sq_tag = Some ''tenant_id'',
       sq_author = Some ''john'', sq_from = None, sq_to = Some ''2024-12-31'' \<rparr>"

definition no_hits :: engine where
  "no_hits body docs = ([], 0)"

definition one_hit :: engine where
  "one_hit body docs =
     ([\<lparr> h_doc_id = ''doc-1'', h_title = ''Payment terms'', h_content = ''Net 30'',
         h_tags = None, h_highlight_content = None,
         h_highlight_title = Some [''<em>Payment</em> terms''], h_score = 3 \<rparr>], 1)"

definition leaky_engine :: "string \<Rightarrow> engine" where
  "leaky_engine tenantId body docs =
     (if Term ''tenant_id'' tenantId \<in> set (filter_clauses body) then ([], 0) else ([], 1))"

definition plain_digest :: "string \<Rightarrow> string" where
  "plain_digest s = s"


definition request_with_limit :: "string \<Rightarrow> search_request" where
  "request_with_limit s =
     \<lparr> rq_q = Str ''test'', rq_offset = Absent, rq_limit = Str s, rq_tag = Absent,
       rq_author = Absent, rq_from = Absent, rq_to = Absent \<rparr>"

definition params_with_limit :: "int \<Rightarrow> search_params" where
  "params_with_limit n =
     \<lparr> p_q = Some ''test'', p_offset = None, p_limit = Some n, p_tag = None,
       p_author = None, p_from = None, p_to = None \<rparr>"

definition doc_of_other_tenant :: document_index where
  "doc_of_other_tenant =
     \<lparr> tenant_id = ''a_b'', doc_id = ''c'', title = ''Invoice'', content = ''Payment terms'',
       tags = Some [], metadata = Some [], created_at = ''2024-01-01T00:00:00.000Z'',
       updated_at = ''2024-01-01T00:00:00.000Z'' \<rparr>"

definition iso0 :: string where "iso0 = ''2024-01-01T00:00:00.000Z''"

definition example_input :: "string \<Rightarrow> string \<Rightarrow> document_input" where
  "example_input ident ttl =
     \<lparr> in_id = Some ident, in_title = ttl, in_content = ''B'', in_tags = None,
       in_metadata = None \<rparr>"

definition example_document :: "string \<Rightarrow> string \<Rightarrow> string \<Rightarrow> document" where
  "example_document tenantId ident ttl =
     \<lparr> d_id = Some ident, d_tenantId = tenantId, d_title = ttl, d_content = ''B'',
       d_tags = Some [], d_metadata = Some [],
       d_createdAt = Some ''2024-01-01T00:00:00.000Z'',
       d_updatedAt = Some ''2024-01-01T00:00:00.000Z'' \<rparr>"

definition world_created :: "cached world" where
  "world_created =
     snd (post_document iso0 ''g'' 0 (Some ''t1'') (example_input ''doc-1'' ''A'') empty_world)"

definition world_read :: "cached world" where
  "world_read = snd (get_document default_config 1000 (Some ''t1'') ''doc-1'' world_created)"

definition world_updated :: "cached world" where
  "world_updated =
     snd (post_document iso0 ''g'' 2000 (Some ''t1'') (example_input ''doc-1'' ''Updated'') world_read)"

definition world_deleted :: "cached world" where
  "world_deleted = snd (delete_document 2000 (Some ''t1'') ''doc-1'' world_read)"

section \<open>Facts about strings and numerals\<close>

lemma trim_Nil_iff: "trim s = [] \<longleftrightarrow> (\<forall>c\<in>set s. js_whitespace c)"
proof
  assume "trim s = []"
  then have *: "\<forall>c\<in>set (dropWhile js_whitespace s). js_whitespace c"
    by (simp add: trim_def)
  have "dropWhile js_whitespace s = []"
  proof (cases "dropWhile js_whitespace s")
    case Nil then show ?thesis .
  next
    case (Cons a as)
    then have "\<not> js_whitespace a" by (metis hd_dropWhile list.sel(1) list.distinct(1))
    with Cons * show ?thesis by simp
  qed
  then show "\<forall>c\<in>set s. js_whitespace c" by simp
next
  assume "\<forall>c\<in>set s. js_whitespace c"
  then show "trim s = []" by (auto simp: trim_def dest: set_dropWhileD)
qed

lemma digit_char_inj: "a < 10 \<Longrightarrow> b < 10 \<Longrightarrow> digit_char a = digit_char b \<Longrightarrow> a = b"
proof -
  assume a: "a < 10" and b: "b < 10" and e: "digit_char a = digit_char b"
  have d: "distinct ''0123456789''" by simp
  have l: "length ''0123456789'' = 10" by simp
  from e show "a = b" unfolding digit_char_def
    using nth_eq_iff_index_eq [OF d, of a b] a b l by simp
qed

lemma show_nat_nonempty: "show_nat n \<noteq> []"
  by (subst show_nat.simps) simp

lemma show_nat_inj: "show_nat n = show_nat m \<Longrightarrow> n = m"
proof (induction n arbitrary: m rule: show_nat.induct)
  case (1 n)
  show ?case
  proof (cases "n < 10")
    case True
    show ?thesis
    proof (cases "m < 10")
      case mt: True
      from "1.prems" True mt have "digit_char n = digit_char m"
        by (simp add: show_nat.simps)
      with True mt show ?thesis by (rule digit_char_inj)
    next
      case mf: False
      from "1.prems" True mf have "[digit_char n] = show_nat (m div 10) @ [digit_char (m mod 10)]"
        by (simp add: show_nat.simps [of n] show_nat.simps [of m])
      then have "show_nat (m div 10) = []" by simp
      with show_nat_nonempty show ?thesis by blast
    qed
  next
    case False
    show ?thesis
    proof (cases "m < 10")
      case mt: True
      from "1.prems" False mt have "show_nat (n div 10) @ [digit_char (n mod 10)] = [digit_char m]"
        by (simp add: show_nat.simps [of n] show_nat.simps [of m])
      then have "show_nat (n div 10) = []" by simp
      with show_nat_nonempty show ?thesis by blast
    next
      case mf: False
      from "1.prems" False mf
      have "show_nat (n div 10) @ [digit_char (n mod 10)] = show_nat (m div 10) @ [digit_char (m mod 10)]"
        by (simp add: show_nat.simps [of n] show_nat.simps [of m])
      then have a: "show_nat (n div 10) = show_nat (m div 10)"
        and b: "digit_char (n mod 10) = digit_char (m mod 10)" by simp_all
      from "1.IH" [OF False a] have "n div 10 = m div 10" .
      moreover have "n mod 10 = m mod 10" by (rule digit_char_inj [OF _ _ b]) simp_all
      ultimately show ?thesis by (metis div_mult_mod_eq)
    qed
  qed
qed

lemma split_at_separator:
  "c \<notin> set a \<Longrightarrow> c \<notin> set b \<Longrightarrow> a @ c # x = b @ c # y \<Longrightarrow> a = b \<and> x = y"
proof (induction a arbitrary: b)
  case Nil
  then show ?case by (cases b) auto
next
  case (Cons h a)
  then show ?case by (cases b) auto
qed

lemma tenant_has_no_colon: "TenantIdSchema t \<Longrightarrow> CHR '':'' \<notin> set t"
  by (auto simp: TenantIdSchema_def tenant_char_def list_all_iff)

section \<open>Facts about the state and the Redis service\<close>

lemma consume_sel [simp]:
  "redis_up (consume w) = redis_up w"
  "redis_kv (consume w) = redis_kv w"
  "os_up (consume w) = os_up w"
  "os_docs (consume w) = os_docs w"
  "log (consume w) = log w"
  "metrics (consume w) = metrics w"
  "redis_faults (consume w) = tl (redis_faults w)"
  by (simp_all add: consume_def)

lemma logger_sel [simp]:
  "redis_up (logger l m w) = redis_up w"
  "redis_kv (logger l m w) = redis_kv w"
  "redis_faults (logger l m w) = redis_faults w"
  "os_up (logger l m w) = os_up w"
  "os_docs (logger l m w) = os_docs w"
  "log (logger l m w) = log w @ [(l, m)]"
  "metrics (logger l m w) = metrics w"
  by (simp_all add: logger_def)

lemma record_metric_sel [simp]:
  "redis_up (record_metric m w) = redis_up w"
  "redis_kv (record_metric m w) = redis_kv w"
  "redis_faults (record_metric m w) = redis_faults w"
  "os_up (record_metric m w) = os_up w"
  "os_docs (record_metric m w) = os_docs w"
  "log (record_metric m w) = log w"
  "metrics (record_metric m w) = metrics w @ [m]"
  by (simp_all add: record_metric_def)

lemma consume_no_faults: "redis_faults w = [] \<Longrightarrow> consume w = w"
  by (simp add: consume_def)

lemma call_fails_healthy: "redis_up w \<Longrightarrow> redis_faults w = [] \<Longrightarrow> \<not> call_fails w"
  by (simp add: call_fails_def)

lemma redis_get_ok:
  "redis_up w \<Longrightarrow> redis_faults w = [] \<Longrightarrow>
   redis_get now key w = (lookup_live now key (redis_kv w), w)"
  by (simp add: redis_get_def client_get_def call_fails_healthy consume_no_faults)

lemma redis_set_ok:
  "redis_up w \<Longrightarrow> redis_faults w = [] \<Longrightarrow> t \<noteq> 0 \<Longrightarrow>
   redis_set now key v (Some t) w =
     (True, w\<lparr>redis_kv := AList.update key (v, Some (now + 1000 * t)) (redis_kv w)\<rparr>)"
  by (simp add: redis_set_def client_setex_def call_fails_healthy consume_def)

lemma redis_get_failed:
  "call_fails w \<Longrightarrow> redis_get now key w = (None, logger Error ''Redis get error'' (consume w))"
  by (simp add: redis_get_def client_get_def)


lemma redis_set_failed:
  "call_fails w \<Longrightarrow> redis_set now key v ttl w = (False, logger Error ''Redis set error'' (consume w))"
  by (simp add: redis_set_def client_setex_def client_set_def split: option.splits)


lemma redis_get_os [simp]:
  "os_up (snd (redis_get now key w)) = os_up w"
  "os_docs (snd (redis_get now key w)) = os_docs w"
  by (simp_all add: redis_get_def client_get_def)

lemma lookup_live_update_same:
  "lookup_live now key (AList.update key (v, e) kv) = (if live now e then Some v else None)"
  by (simp add: lookup_live_def update_conv')

lemma lookup_live_update_other:
  "k \<noteq> key \<Longrightarrow> lookup_live now k (AList.update key x kv) = lookup_live now k kv"
  by (simp add: lookup_live_def update_conv')

lemma lookup_live_absent: "key \<notin> fst ` set kv \<Longrightarrow> lookup_live now key kv = None"
proof -
  assume "key \<notin> fst ` set kv"
  then have "map_of kv key = None" by (simp add: map_of_eq_None_iff)
  then show ?thesis by (simp add: lookup_live_def)
qed

lemma map_of_filter_other:
  "key \<notin> S \<Longrightarrow> map_of (filter (\<lambda>(k, e). k \<notin> S) kv) key = map_of kv key"
  by (induction kv) auto

lemma redis_del_ok:
  assumes "redis_up w" "redis_faults w = []"
  shows "redis_del now key w =
           (True, w\<lparr>redis_kv := filter (\<lambda>(k, e). k \<notin> set [key]) (redis_kv w)\<rparr>)"
  using assms by (simp add: redis_del_def client_del_def call_fails_healthy consume_def)

lemma redis_delPattern_ok:
  assumes "redis_up w" "redis_faults w = []"
  shows "\<exists>kv'. snd (redis_delPattern now pattern w) = w\<lparr>redis_kv := kv'\<rparr> \<and>
               set kv' \<subseteq> set (redis_kv w)"
proof -
  let ?keys = "filter (\<lambda>k. glob_match pattern k \<and> lookup_live now k (redis_kv w) \<noteq> None)
                 (remdups (map fst (redis_kv w)))"
  have k: "client_keys now pattern w = (Inr ?keys, w)"
    using assms by (simp add: client_keys_def call_fails_healthy consume_no_faults)
  show ?thesis
  proof (cases "?keys = []")
    case True
    then have "snd (redis_delPattern now pattern w) = w\<lparr>redis_kv := redis_kv w\<rparr>"
      by (simp add: redis_delPattern_def k)
    then show ?thesis by blast
  next
    case False
    then have "snd (redis_delPattern now pattern w) =
        w\<lparr>redis_kv := filter (\<lambda>(k, e). k \<notin> set ?keys) (redis_kv w)\<rparr>"
      using assms
      by (simp add: redis_delPattern_def k client_del_def call_fails_healthy consume_def)
    moreover have "set (filter (\<lambda>(k, e). k \<notin> set ?keys) (redis_kv w)) \<subseteq> set (redis_kv w)"
      by simp
    ultimately show ?thesis by blast
  qed
qed

lemma redis_delPattern_keeps:
  assumes "redis_up w" "redis_faults w = []" "\<not> glob_match pattern key"
  shows "\<exists>kv'. snd (redis_delPattern now pattern w) = w\<lparr>redis_kv := kv'\<rparr> \<and>
               map_of kv' key = map_of (redis_kv w) key"
proof -
  let ?keys = "filter (\<lambda>k. glob_match pattern k \<and> lookup_live now k (redis_kv w) \<noteq> None)
                 (remdups (map fst (redis_kv w)))"
  have k: "client_keys now pattern w = (Inr ?keys, w)"
    using assms(1,2) by (simp add: client_keys_def call_fails_healthy consume_no_faults)
  show ?thesis
  proof (cases "?keys = []")
    case True
    then have "snd (redis_delPattern now pattern w) = w\<lparr>redis_kv := redis_kv w\<rparr>"
      by (simp add: redis_delPattern_def k)
    then show ?thesis by blast
  next
    case False
    then have "snd (redis_delPattern now pattern w) =
        w\<lparr>redis_kv := filter (\<lambda>(k, e). k \<notin> set ?keys) (redis_kv w)\<rparr>"
      using assms(1,2)
      by (simp add: redis_delPattern_def k client_del_def call_fails_healthy consume_def)
    moreover have "key \<notin> set ?keys" using assms(3) by simp
    then have "map_of (filter (\<lambda>(k, e). k \<notin> set ?keys) (redis_kv w)) key = map_of (redis_kv w) key"
      by (rule map_of_filter_other)
    ultimately show ?thesis by blast
  qed
qed

lemma num_or_zero [simp]: "num_or (Some n) 0 = n" "num_or None d = d"
  by (simp_all add: num_or_def)

section \<open>Facts about the rate limiter\<close>

lemma ceil_div_pos: "0 < a \<Longrightarrow> ceil_div a 1000 \<noteq> 0"
  by (simp add: ceil_div_def)

lemma ceil_div_ge: "a \<le> 1000 * ceil_div a 1000"
proof -
  have "a + 999 = 1000 * ((a + 999) div 1000) + (a + 999) mod 1000" by simp
  moreover have "(a + 999) mod 1000 < 1000" by simp
  ultimately show ?thesis unfolding ceil_div_def by linarith
qed

lemma ceil_div_exact: "1000 dvd a \<Longrightarrow> 1000 * ceil_div a 1000 = a"
proof -
  assume "1000 dvd a"
  then obtain k where k: "a = 1000 * k" by (auto simp: dvd_def)
  have "(1000 * k + 999) div 1000 = k" by simp
  then show ?thesis by (simp add: ceil_div_def k)
qed

lemma window_bounds:
  "0 < windowMs cfg \<Longrightarrow>
   windowStart_of cfg now \<le> now \<and> now < windowStart_of cfg now + windowMs cfg"
proof -
  assume p: "0 < windowMs cfg"
  have "now = (now div windowMs cfg) * windowMs cfg + now mod windowMs cfg" by simp
  moreover have "now mod windowMs cfg < windowMs cfg" using p by simp
  ultimately show ?thesis unfolding windowStart_of_def by linarith
qed

lemma later_window:
  assumes "0 < windowMs cfg" "ws + windowMs cfg \<le> later"
  shows "windowStart_of cfg later \<noteq> ws"
  using window_bounds [OF assms(1), of later] assms(2) by auto

lemma countKey_inj:
  assumes "TenantIdSchema t1" "TenantIdSchema t2"
  shows "countKey t1 ws1 = countKey t2 ws2 \<longleftrightarrow> t1 = t2 \<and> ws1 = ws2"
proof
  assume "countKey t1 ws1 = countKey t2 ws2"
  then have "t1 @ CHR '':'' # show_nat ws1 = t2 @ CHR '':'' # show_nat ws2"
    by (simp add: countKey_def)
  with tenant_has_no_colon [OF assms(1)] tenant_has_no_colon [OF assms(2)]
  have "t1 = t2 \<and> show_nat ws1 = show_nat ws2" by (rule split_at_separator)
  then show "t1 = t2 \<and> ws1 = ws2" by (auto dest: show_nat_inj)
next
  assume "t1 = t2 \<and> ws1 = ws2"
  then show "countKey t1 ws1 = countKey t2 ws2" by simp
qed

lemma countKey_eq_iff: "countKey t ws = countKey t ws' \<longleftrightarrow> ws = ws'"
  by (auto simp: countKey_def dest: show_nat_inj)

lemma live_in_window:
  assumes "0 < windowMs cfg" "windowStart_of cfg now = ws" "windowStart_of cfg now' = ws"
  shows "live now' (Some (now + 1000 * ceil_div (windowMs cfg) 1000))"
proof -
  from window_bounds [OF assms(1), of now'] assms(3) have "now' < ws + windowMs cfg" by simp
  moreover from window_bounds [OF assms(1), of now] assms(2) have "ws \<le> now" by simp
  moreover have "windowMs cfg \<le> 1000 * ceil_div (windowMs cfg) 1000" by (rule ceil_div_ge)
  ultimately show ?thesis by (simp add: live_def)
qed

lemma limiter_reject:
  assumes "truthy tenant" "redis_up w" "redis_faults w = []"
    and "maxRequests cfg \<le> num_or (lookup_live now (countKey (the tenant) (windowStart_of cfg now)) (redis_kv w)) 0"
  shows "rateLimiter cfg now tenant w =
     (\<lparr> rl_next = Some rate_limit_exceeded,
        rl_headers = [X_RateLimit_Limit (maxRequests cfg), X_RateLimit_Remaining 0,
                      X_RateLimit_Reset (windowStart_of cfg now + windowMs cfg),
                      Retry_After (ceil_div (windowStart_of cfg now + windowMs cfg - now) 1000)] \<rparr>,
      logger Warn ''Rate limit exceeded'' w)"
  using assms
  by (simp add: rateLimiter_def rateLimiter_with_def service_get_def redis_get_ok Let_def)

lemma limiter_admit:
  assumes "truthy tenant" "redis_up w" "redis_faults w = []" "0 < windowMs cfg"
    and "num_or (lookup_live now (countKey (the tenant) (windowStart_of cfg now)) (redis_kv w)) 0 < maxRequests cfg"
  shows "rateLimiter cfg now tenant w =
     (\<lparr> rl_next = None,
        rl_headers = [X_RateLimit_Limit (maxRequests cfg),
                      X_RateLimit_Remaining (max 0 (maxRequests cfg -
                         (num_or (lookup_live now (countKey (the tenant) (windowStart_of cfg now)) (redis_kv w)) 0 + 1))),
                      X_RateLimit_Reset (windowStart_of cfg now + windowMs cfg)] \<rparr>,
      w\<lparr>redis_kv := AList.update (countKey (the tenant) (windowStart_of cfg now))
            (num_or (lookup_live now (countKey (the tenant) (windowStart_of cfg now)) (redis_kv w)) 0 + 1,
             Some (now + 1000 * ceil_div (windowMs cfg) 1000)) (redis_kv w)\<rparr>)"
  using assms
  by (simp add: rateLimiter_def rateLimiter_with_def service_get_def service_set_def
      redis_get_ok redis_set_ok ceil_div_pos Let_def)

lemma run_limiter_Cons:
  "run_limiter cfg tenant (now # ts) w =
     (fst (rateLimiter cfg now tenant w) #
        fst (run_limiter cfg tenant ts (snd (rateLimiter cfg now tenant w))),
      snd (run_limiter cfg tenant ts (snd (rateLimiter cfg now tenant w))))"
  by (simp split: prod.splits)

lemma run_limiter_window:
  assumes "truthy tenant" "0 < windowMs cfg"
  shows "redis_up w \<Longrightarrow> redis_faults w = [] \<Longrightarrow>
     \<forall>now\<in>set ts. windowStart_of cfg now = ws \<Longrightarrow>
     \<forall>now. windowStart_of cfg now = ws \<longrightarrow>
        num_or (lookup_live now (countKey (the tenant) ws) (redis_kv w)) 0 = c \<Longrightarrow>
     map rl_next (fst (run_limiter cfg tenant ts w)) =
       map (\<lambda>i. if c + int i < maxRequests cfg then None else Some rate_limit_exceeded) [0..<length ts] \<and>
     redis_up (snd (run_limiter cfg tenant ts w)) \<and>
     redis_faults (snd (run_limiter cfg tenant ts w)) = [] \<and>
     (\<forall>k. k \<noteq> countKey (the tenant) ws \<longrightarrow>
        map_of (redis_kv (snd (run_limiter cfg tenant ts w))) k = map_of (redis_kv w) k)"
proof (induction ts arbitrary: w c)
  case Nil
  then show ?case by simp
next
  case (Cons now ts)
  let ?key = "countKey (the tenant) ws"
  from Cons.prems(3) have ws: "windowStart_of cfg now = ws"
    and rest: "\<forall>n\<in>set ts. windowStart_of cfg n = ws" by simp_all
  from Cons.prems(4) ws
  have cnt: "num_or (lookup_live now (countKey (the tenant) (windowStart_of cfg now)) (redis_kv w)) 0 = c"
    by simp
  show ?case
  proof (cases "c < maxRequests cfg")
    case True
    let ?w' = "w\<lparr>redis_kv := AList.update ?key
                  (c + 1, Some (now + 1000 * ceil_div (windowMs cfg) 1000)) (redis_kv w)\<rparr>"
    have step: "fst (rateLimiter cfg now tenant w) =
        \<lparr> rl_next = None,
           rl_headers = [X_RateLimit_Limit (maxRequests cfg),
                         X_RateLimit_Remaining (max 0 (maxRequests cfg - (c + 1))),
                         X_RateLimit_Reset (windowStart_of cfg now + windowMs cfg)] \<rparr>"
      and step2: "snd (rateLimiter cfg now tenant w) = ?w'"
      using limiter_admit [OF assms(1) Cons.prems(1) Cons.prems(2) assms(2), of now] cnt True ws
      by simp_all
    have inv: "\<forall>n. windowStart_of cfg n = ws \<longrightarrow> num_or (lookup_live n ?key (redis_kv ?w')) 0 = c + 1"
      using live_in_window [OF assms(2) ws] by (simp add: lookup_live_update_same)
    have up: "redis_up ?w'" and nf: "redis_faults ?w' = []"
      using Cons.prems(1,2) by simp_all
    from Cons.IH [OF up nf rest inv]
    have ih: "map rl_next (fst (run_limiter cfg tenant ts ?w')) =
          map (\<lambda>i. if c + 1 + int i < maxRequests cfg then None else Some rate_limit_exceeded) [0..<length ts]"
      and ih_up: "redis_up (snd (run_limiter cfg tenant ts ?w'))"
      and ih_nf: "redis_faults (snd (run_limiter cfg tenant ts ?w')) = []"
      and ih_fr: "\<forall>k. k \<noteq> ?key \<longrightarrow>
          map_of (redis_kv (snd (run_limiter cfg tenant ts ?w'))) k = map_of (redis_kv ?w') k"
      by blast+
    have fr: "\<forall>k. k \<noteq> ?key \<longrightarrow> map_of (redis_kv ?w') k = map_of (redis_kv w) k"
      by (simp add: update_conv')
    have shift: "map (\<lambda>i. if c + int i < maxRequests cfg then None else Some rate_limit_exceeded) [0..<Suc (length ts)] =
        None # map (\<lambda>i. if c + 1 + int i < maxRequests cfg then None else Some rate_limit_exceeded) [0..<length ts]"
      using True by (simp add: map_upt_Suc del: upt_Suc)
    show ?thesis
      unfolding run_limiter_Cons step2
      using ih ih_up ih_nf ih_fr fr
      by (simp add: step shift del: upt_Suc)
  next
    case False
    let ?w' = "logger Warn ''Rate limit exceeded'' w"
    have step: "rl_next (fst (rateLimiter cfg now tenant w)) = Some rate_limit_exceeded"
      and step2: "snd (rateLimiter cfg now tenant w) = ?w'"
      using limiter_reject [OF assms(1) Cons.prems(1) Cons.prems(2), of cfg now] cnt False
      by simp_all
    have inv: "\<forall>n. windowStart_of cfg n = ws \<longrightarrow> num_or (lookup_live n ?key (redis_kv ?w')) 0 = c"
      using Cons.prems(4) by simp
    have up: "redis_up ?w'" and nf: "redis_faults ?w' = []"
      using Cons.prems(1,2) by simp_all
    from Cons.IH [OF up nf rest inv]
    have ih: "map rl_next (fst (run_limiter cfg tenant ts ?w')) =
          map (\<lambda>i. if c + int i < maxRequests cfg then None else Some rate_limit_exceeded) [0..<length ts]"
      and ih_up: "redis_up (snd (run_limiter cfg tenant ts ?w'))"
      and ih_nf: "redis_faults (snd (run_limiter cfg tenant ts ?w')) = []"
      and ih_fr: "\<forall>k. k \<noteq> ?key \<longrightarrow>
          map_of (redis_kv (snd (run_limiter cfg tenant ts ?w'))) k = map_of (redis_kv ?w') k"
      by blast+
    have all_rej: "map (\<lambda>i. if c + int i < maxRequests cfg then None else Some rate_limit_exceeded) [0..<n] =
          replicate n (Some rate_limit_exceeded)" for n
      using False by (induction n) (simp_all add: replicate_append_same)
    show ?thesis
      unfolding run_limiter_Cons step2
      using ih ih_up ih_nf ih_fr
      by (simp add: step all_rej del: upt_Suc)
  qed
qed








section \<open>Facts about the query plan and the search route\<close>

lemma clause_field_extra: "c \<in> set (extra_filters query) \<Longrightarrow> clause_field c \<noteq> Some ''tenant_id''"
  by (auto simp: extra_filters_def split: if_splits)

lemma search_engine_agree:
  assumes "\<And>b docs. Term ''tenant_id'' tenantId \<in> set (filter_clauses b) \<Longrightarrow> e1 b docs = e2 b docs"
  shows "search e1 tenantId query w = search e2 tenantId query w"
proof -
  have "e1 (build_search_body tenantId query) (os_docs w) = e2 (build_search_body tenantId query) (os_docs w)"
    by (rule assms) (simp add: build_search_body_def)
  then show ?thesis by (simp add: search_def os_search_def)
qed

lemma search_fst_cong:
  "os_up w1 = os_up w \<Longrightarrow> os_docs w1 = os_docs w \<Longrightarrow>
   fst (search engine t q w1) = fst (search engine t q w)"
  by (simp add: search_def os_search_def split: sum.splits prod.splits)

lemma search_kv [simp]: "redis_kv (snd (search engine t q w)) = redis_kv w"
  by (simp add: search_def split: sum.splits prod.splits)

lemma search_up [simp]: "redis_up (snd (search engine t q w)) = redis_up w"
  by (simp add: search_def split: sum.splits prod.splits)

lemma getSearchResult_outage:
  assumes "\<not> redis_up w"
  shows "getSearchResult sha256_hex now t q f off lim w =
     (None, record_metric (CacheMiss ''search'') (logger Error ''Redis get error'' (consume w)))"
proof -
  have "call_fails w" using assms by (simp add: call_fails_def)
  then show ?thesis by (simp add: getSearchResult_def redis_get_failed)
qed

lemma setSearchResult_outage:
  assumes "\<not> redis_up w"
  shows "setSearchResult sha256_hex cfg now t q f off lim resp w =
     logger Debug ''Cached search result'' (logger Error ''Redis set error'' (consume w))"
proof -
  have "call_fails w" using assms by (simp add: call_fails_def)
  then show ?thesis by (simp add: setSearchResult_def redis_set_failed)
qed

lemma schema_limit:
  "SearchQuerySchema r = Some d \<Longrightarrow> optional_number (rq_limit r) = Some (p_limit d)"
  by (auto simp: SearchQuerySchema_def split: Option.bind_splits)

lemma schema_offset:
  "SearchQuerySchema r = Some d \<Longrightarrow> optional_number (rq_offset r) = Some (p_offset d)"
  by (auto simp: SearchQuerySchema_def split: Option.bind_splits)

lemma optional_number_nonneg: "optional_number x = Some (Some n) \<Longrightarrow> 0 \<le> n"
  by (auto simp: optional_number_def split: qparam.splits if_splits)

lemma optional_number_bad: "\<not> digits_only s \<Longrightarrow> optional_number (Str s) = None"
  by (simp add: optional_number_def)

lemma schema_bad_limit: "rq_limit r = Str s \<Longrightarrow> \<not> digits_only s \<Longrightarrow> SearchQuerySchema r = None"
  by (simp add: SearchQuerySchema_def optional_number_bad split: Option.bind_splits)

lemma schema_bad_offset: "rq_offset r = Str s \<Longrightarrow> \<not> digits_only s \<Longrightarrow> SearchQuerySchema r = None"
  by (simp add: SearchQuerySchema_def optional_number_bad split: Option.bind_splits)

lemma schema_nonstring_limit: "rq_limit r = NonString \<Longrightarrow> SearchQuerySchema r = None"
  by (simp add: SearchQuerySchema_def optional_number_def split: Option.bind_splits)

lemma schema_nonstring_offset: "rq_offset r = NonString \<Longrightarrow> SearchQuerySchema r = None"
  by (simp add: SearchQuerySchema_def optional_number_def split: Option.bind_splits)

lemma response_limit:
  "num_or (sq_limit (make_query d)) 10 = size_limit (build_search_body t (make_query d))"
  by (simp add: build_search_body_def make_query_def num_or_def Let_def split: option.splits)

lemma negative_not_digits: "\<not> digits_only (CHR ''-'' # s)"
  by (simp add: digits_only_def is_digit_def)

lemma served_limit:
  "size_limit (build_search_body t (make_query d)) =
     (case p_limit d of None \<Rightarrow> 10 | Some n \<Rightarrow> if n = 0 then 10 else min n 50)"
  by (simp add: build_search_body_def make_query_def num_or_def Let_def split: option.splits)

lemma served_limit_query:
  "sq_limit (make_query d) =
     Some (case p_limit d of None \<Rightarrow> 10 | Some n \<Rightarrow> if n = 0 then 10 else if 50 < n then 50 else n)"
  by (simp add: make_query_def num_or_def Let_def split: option.splits)

lemma served_offset:
  "from_offset (build_search_body t (make_query d)) = (case p_offset d of None \<Rightarrow> 0 | Some n \<Rightarrow> n)"
  by (simp add: build_search_body_def make_query_def num_or_def Let_def split: option.splits)

lemma schema_request_with_limit:
  "digits_only s \<Longrightarrow> SearchQuerySchema (request_with_limit s) = Some (params_with_limit (int (to_number s)))"
  by (simp add: SearchQuerySchema_def request_with_limit_def params_with_limit_def
      optional_nonempty_def optional_number_def optional_string_def)

section \<open>Facts about documents\<close>

lemma cache_getDocument_os [simp]:
  "os_up (snd (cache_getDocument now t d w)) = os_up w"
  "os_docs (snd (cache_getDocument now t d w)) = os_docs w"
  by (simp_all add: cache_getDocument_def split: prod.splits option.splits)
    (metis redis_get_os snd_conv)+

lemma cache_getDocument_indep:
  "fst (cache_getDocument now t d (w\<lparr>os_docs := x\<rparr>)) = fst (cache_getDocument now t d w)"
  by (simp add: cache_getDocument_def redis_get_def client_get_def call_fails_def
      split: prod.splits option.splits sum.splits)

lemma getDocument_mismatch:
  assumes "os_up w" "map_of (os_docs w) (index_id tenantId docId) = Some source"
    and "tenant_id source \<noteq> tenantId"
  shows "fst (getDocument tenantId docId w) = Inr None"
  using assms by (simp add: getDocument_def os_get_def)

lemma getDocument_absent:
  assumes "os_up w" "map_of (os_docs w) (index_id tenantId docId) = None"
  shows "getDocument tenantId docId w = (Inr None, w)"
  using assms by (simp add: getDocument_def os_get_def)

lemma get_document_miss:
  assumes "truthy tenant" "fst (cache_getDocument now (the tenant) docId w) = None"
    and "fst (getDocument (the tenant) docId (snd (cache_getDocument now (the tenant) docId w))) = Inr None"
  shows "fst (get_document cfg now tenant docId w) = Inl (AppError 404 ''Document not found'')"
  using assms
  by (auto simp: get_document_def Let_def split: prod.splits option.splits sum.splits)

lemma getDocumentKey_inj:
  assumes "TenantIdSchema t1" "TenantIdSchema t2"
    and "getDocumentKey t1 d1 = getDocumentKey t2 d2"
  shows "t1 = t2 \<and> d1 = d2"
proof -
  from assms(3) have "t1 @ CHR '':'' # d1 = t2 @ CHR '':'' # d2"
    by (simp add: getDocumentKey_def)
  with tenant_has_no_colon [OF assms(1)] tenant_has_no_colon [OF assms(2)]
  show ?thesis by (rule split_at_separator)
qed

lemma index_id_inj_without_underscore:
  assumes "CHR ''_'' \<notin> set t1" "CHR ''_'' \<notin> set t2" "index_id t1 d1 = index_id t2 d2"
  shows "t1 = t2 \<and> d1 = d2"
proof -
  from assms(3) have "t1 @ CHR ''_'' # d1 = t2 @ CHR ''_'' # d2"
    by (simp add: index_id_def)
  with assms(1,2) show ?thesis by (rule split_at_separator)
qed

lemma document_key_not_search: "\<not> glob_match (''search:'' @ t @ '':*'') (getDocumentKey t' d)"
  by (simp add: glob_match_def getDocumentKey_def butlast_append)

lemmas eval_defs =
  post_document_def DocumentSchema_ok_def example_input_def example_document_def iso0_def
  truthy_def indexDocument_def os_index_def str_or_def Let_def empty_world_def
  invalidateTenantSearches_def redis_delPattern_def client_keys_def call_fails_def
  consume_def logger_def getDocument_def os_get_def mapIndexToDocument_def
  delete_document_def deleteDocument_def os_delete_def invalidateDocument_def
  redis_del_def client_del_def getDocumentKey_def index_id_def
  get_document_def cache_getDocument_def redis_get_def client_get_def lookup_live_def live_def
  setDocument_def redis_set_def client_setex_def client_set_def default_config_def
  record_metric_def glob_match_def

section \<open>The tenant filter of the query plan\<close>

text \<open>
  Claim C1. For every tenant identifier and every search query, the filter list of the
  request body that \<open>search\<close> builds starts with the term clause on \<open>tenant_id\<close>
  for the tenant identifier passed by the caller of the service; no clause built from
  the query (its text or its optional filters) is on \<open>tenant_id\<close>; and the engine is
  only ever asked to run a body that holds this clause: two engines that agree on all
  such bodies give the same result, for the service method and for the route.
\<close>

theorem search_plan_has_tenant_filter:
  "filter_clauses (build_search_body tenantId query) =
     Term ''tenant_id'' tenantId # extra_filters query \<and>
   Term ''tenant_id'' tenantId \<in> set (filter_clauses (build_search_body tenantId query)) \<and>
   (\<forall>c\<in>set (extra_filters query). clause_field c \<noteq> Some ''tenant_id'') \<and>
   (\<forall>c\<in>set (must (build_search_body tenantId query)). clause_field c = None) \<and>
   ((\<forall>b docs. Term ''tenant_id'' tenantId \<in> set (filter_clauses b) \<longrightarrow> e1 b docs = e2 b docs) \<longrightarrow>
      search e1 tenantId query w = search e2 tenantId query w \<and>
      get_search sha256_hex e1 cfg now (Some tenantId) req w' =
        get_search sha256_hex e2 cfg now (Some tenantId) req w')"
proof -
  have a: "filter_clauses (build_search_body tenantId query) =
     Term ''tenant_id'' tenantId # extra_filters query"
    by (simp add: build_search_body_def)
  have b: "\<forall>c\<in>set (extra_filters query). clause_field c \<noteq> Some ''tenant_id''"
    using clause_field_extra by blast
  have c: "\<forall>c\<in>set (must (build_search_body tenantId query)). clause_field c = None"
    by (simp add: build_search_body_def text_clauses_def)
  have d: "search e1 tenantId query w = search e2 tenantId query w \<and>
      get_search sha256_hex e1 cfg now (Some tenantId) req w' =
        get_search sha256_hex e2 cfg now (Some tenantId) req w'"
    if agree: "\<forall>b docs. Term ''tenant_id'' tenantId \<in> set (filter_clauses b) \<longrightarrow> e1 b docs = e2 b docs"
  proof -
    have s: "search e1 tenantId q v = search e2 tenantId q v" for q and v :: "'b world"
      using agree by (intro search_engine_agree) blast
    have "get_search sha256_hex e1 cfg now (Some tenantId) req w' =
        get_search sha256_hex e2 cfg now (Some tenantId) req w'"
      unfolding get_search_def by (simp add: s Let_def split: option.splits prod.splits)
    moreover have "search e1 tenantId query w = search e2 tenantId query w"
      using agree by (intro search_engine_agree) blast
    ultimately show ?thesis by simp
  qed
  from a b c d show ?thesis by simp
qed

theorem search_plan_has_tenant_filter_witness:
  "filter_clauses (build_search_body ''t1'' query_with_filters) =
     [Term ''tenant_id'' ''t1'', Term ''tags'' ''tenant_id'', Term ''metadata.author'' ''john'',
      Range ''created_at'' None (Some ''2024-12-31'')] \<and>
   search no_hits ''t1'' query_with_filters (empty_world :: cached world) =
     search (leaky_engine ''t1'') ''t1'' query_with_filters empty_world"
proof -
  have agree: "\<forall>b docs. Term ''tenant_id'' ''t1'' \<in> set (filter_clauses b) \<longrightarrow>
      no_hits b docs = leaky_engine ''t1'' b docs"
    by (simp add: no_hits_def leaky_engine_def)
  have ex: "extra_filters query_with_filters =
     [Term ''tags'' ''tenant_id'', Term ''metadata.author'' ''john'',
      Range ''created_at'' None (Some ''2024-12-31'')]"
    by (simp add: extra_filters_def query_with_filters_def truthy_def)
  from search_plan_has_tenant_filter
    [where tenantId = "''t1''" and query = query_with_filters and ?e1.0 = no_hits
      and ?e2.0 = "leaky_engine ''t1''" and w = "empty_world :: cached world"]
    agree
  show ?thesis by (simp add: ex)
qed

section \<open>Document cache after a mutation\<close>

text \<open>
  Claim C2. A document is created, read (which caches it) and indexed again under the
  same identifier with a new title. The index then holds the new version, but the
  route still answers the read with the cached first version: \<open>POST /documents\<close>
  removes the tenant's search entries only, not the document's entry. After
  \<open>DELETE\<close> of the same document, which removes the entry, the read is not found.
\<close>

theorem stale_document_after_reindex:
  "fst (get_document default_config 1000 (Some ''t1'') ''doc-1'' world_created) =
     Inr (200, Document_body (example_document ''t1'' ''doc-1'' ''A'')) \<and>
   fst (post_document iso0 ''g'' 2000 (Some ''t1'') (example_input ''doc-1'' ''Updated'') world_read) =
     Inr (201, Status_body ''doc-1'' ''t1'' ''indexed'') \<and>
   fst (getDocument ''t1'' ''doc-1'' world_updated) =
     Inr (Some (example_document ''t1'' ''doc-1'' ''Updated'')) \<and>
   fst (get_document default_config 3000 (Some ''t1'') ''doc-1'' world_updated) =
     Inr (200, Cached_body (CDocument (example_document ''t1'' ''doc-1'' ''A''))) \<and>
   fst (get_document default_config 3000 (Some ''t1'') ''doc-1'' world_deleted) =
     Inl (AppError 404 ''Document not found'')"
  by (simp add: world_created_def world_read_def world_updated_def world_deleted_def eval_defs)

text \<open>
  Both observations hold in general while Redis and the index are reachable: after
  \<open>DELETE\<close> the next read of the document is not found, and after \<open>POST\<close>
  a document entry that was live in the cache is still what the route answers.
\<close>

lemma delete_then_get_not_found:
  assumes "truthy tenant" "redis_up w" "redis_faults w = []" "os_up w"
  shows "fst (get_document cfg now' tenant docId (snd (delete_document now tenant docId w))) =
           Inl (AppError 404 ''Document not found'')"
proof -
  let ?t = "the tenant"
  let ?key = "getDocumentKey ?t docId"
  let ?id = "index_id ?t docId"
  obtain deleted w1 where d: "deleteDocument ?t docId w = (Inr deleted, w1)"
    and w1: "redis_up w1" "redis_faults w1 = []" "os_up w1" "redis_kv w1 = redis_kv w"
      "map_of (os_docs w1) ?id = None"
  proof (cases "map_of (os_docs w) ?id")
    case None
    with assms(2-4) show ?thesis
      by (intro that [of False "logger Debug ''Document not found for deletion'' w"])
         (simp_all add: deleteDocument_def os_delete_def)
  next
    case (Some source)
    with assms(2-4) show ?thesis
      by (intro that [of True "logger Info ''Document deleted''
              (w\<lparr>os_docs := AList.delete ?id (os_docs w)\<rparr>)"])
         (simp_all add: deleteDocument_def os_delete_def delete_conv')
  qed
  let ?w2 = "invalidateDocument now ?t docId w1"
  have w2: "?w2 = logger Debug ''Invalidated document cache''
      (w1\<lparr>redis_kv := filter (\<lambda>(k, e). k \<notin> set [?key]) (redis_kv w1)\<rparr>)"
    by (simp add: invalidateDocument_def redis_del_ok [OF w1(1,2)])
  have w2p: "redis_up ?w2" "redis_faults ?w2 = []" "os_up ?w2"
    "map_of (os_docs ?w2) ?id = None" "?key \<notin> fst ` set (redis_kv ?w2)"
    using w1 unfolding w2 by auto
  let ?w3 = "invalidateTenantSearches now ?t ?w2"
  obtain kv' where w3: "?w3 = logger Debug ''Invalidated tenant search cache'' (?w2\<lparr>redis_kv := kv'\<rparr>)"
    and kv': "set kv' \<subseteq> set (redis_kv ?w2)"
    using redis_delPattern_ok [OF w2p(1,2), of now "''search:'' @ ?t @ '':*''"]
    by (auto simp: invalidateTenantSearches_def)
  let ?w4 = "logger Info ''Document deleted'' ?w3"
  have w4p: "redis_up ?w4" "redis_faults ?w4 = []" "os_up ?w4"
    "map_of (os_docs ?w4) ?id = None" "?key \<notin> fst ` set (redis_kv ?w4)"
    using w2p kv' unfolding w3 by auto
  have fin: "snd (delete_document now tenant docId w) = ?w4"
    using assms(1) by (simp add: delete_document_def d Let_def)
  have "lookup_live now' ?key (redis_kv ?w4) = None"
    using w4p(5) by (rule lookup_live_absent)
  then have miss: "fst (cache_getDocument now' ?t docId ?w4) = None"
    by (simp add: cache_getDocument_def redis_get_ok [OF w4p(1,2)])
  have "fst (getDocument ?t docId (snd (cache_getDocument now' ?t docId ?w4))) = Inr None"
    using getDocument_absent [of "snd (cache_getDocument now' ?t docId ?w4)" ?t docId] w4p(3,4)
    by simp
  with miss show ?thesis
    unfolding fin by (intro get_document_miss [OF assms(1)])
qed

lemma reindex_keeps_cached_document:
  assumes "truthy tenant" "redis_up w" "redis_faults w = []" "os_up w" "DocumentSchema_ok b"
    and "lookup_live now' (getDocumentKey (the tenant) docId) (redis_kv w) = Some c"
  shows "fst (get_document cfg now' tenant docId
                (snd (post_document nowIso generated now tenant b w))) =
           Inr (200, Cached_body c)"
proof -
  let ?t = "the tenant"
  let ?key = "getDocumentKey ?t docId"
  obtain w1 where i: "indexDocument nowIso generated ?t
        \<lparr> d_id = in_id b, d_tenantId = ?t, d_title = in_title b, d_content = in_content b,
          d_tags = in_tags b, d_metadata = in_metadata b, d_createdAt = Some nowIso,
          d_updatedAt = Some nowIso \<rparr> w = (Inr (), w1)"
    and w1: "redis_up w1" "redis_faults w1 = []" "redis_kv w1 = redis_kv w"
    using assms(2-4) by (simp add: indexDocument_def os_index_def Let_def)
  obtain kv' where w2: "invalidateTenantSearches now ?t w1 =
        logger Debug ''Invalidated tenant search cache'' (w1\<lparr>redis_kv := kv'\<rparr>)"
    and kv': "map_of kv' ?key = map_of (redis_kv w1) ?key"
    using redis_delPattern_keeps [OF w1(1,2) document_key_not_search, of now ?t ?t docId]
    unfolding invalidateTenantSearches_def by metis
  let ?w3 = "logger Info ''Document created''
               (logger Debug ''Invalidated tenant search cache'' (w1\<lparr>redis_kv := kv'\<rparr>))"
  have fin: "snd (post_document nowIso generated now tenant b w) = ?w3"
    using assms(1,5) by (simp add: post_document_def i Let_def w2)
  have p: "redis_up ?w3" "redis_faults ?w3 = []" using w1 by simp_all
  have "lookup_live now' ?key (redis_kv ?w3) = Some c"
    using assms(6) kv' w1(3) by (simp add: lookup_live_def)
  then show ?thesis
    using assms(1) unfolding fin
    by (simp add: get_document_def cache_getDocument_def redis_get_ok [OF p] Let_def)
qed

section \<open>Limit and offset of a search request\<close>

text \<open>
  Claim C3, as the code has it. When the query parameters pass the schema, the size
  sent to the engine is the default 10 for an absent limit and for limit 0, the limit
  itself up to 50, and 50 above that, so it lies between 1 and 50; the response
  reports the same limit, and the offset is not negative. A limit or an offset that is
  not a string of decimal digits fails the schema, as every string with a minus sign
  does, and the route then answers with the 400 error.
\<close>

theorem limit_capped_offset_validated:
  "(SearchQuerySchema r = Some d \<longrightarrow>
      size_limit (build_search_body t (make_query d)) =
        (case p_limit d of None \<Rightarrow> 10 | Some n \<Rightarrow> if n = 0 then 10 else min n 50) \<and>
      1 \<le> size_limit (build_search_body t (make_query d)) \<and>
      size_limit (build_search_body t (make_query d)) \<le> 50 \<and>
      num_or (sq_limit (make_query d)) 10 = size_limit (build_search_body t (make_query d)) \<and>
      0 \<le> from_offset (build_search_body t (make_query d))) \<and>
   (SearchQuerySchema r = Some d \<and> rq_limit r = Str s \<longrightarrow>
      digits_only s \<and> p_limit d = Some (int (to_number s))) \<and>
   (rq_limit r = Str s \<and> \<not> digits_only s \<longrightarrow> SearchQuerySchema r = None) \<and>
   (rq_offset r = Str s \<and> \<not> digits_only s \<longrightarrow> SearchQuerySchema r = None) \<and>
   (rq_limit r = NonString \<or> rq_offset r = NonString \<longrightarrow> SearchQuerySchema r = None) \<and>
   \<not> digits_only (CHR ''-'' # s) \<and>
   (truthy tenant \<and> SearchQuerySchema r = None \<longrightarrow>
      get_search sha256_hex engine cfg now tenant r w =
        (Inl (AppError 400 ''Invalid query parameters''), w))"
proof -
  have a: "1 \<le> size_limit (build_search_body t (make_query d)) \<and>
      size_limit (build_search_body t (make_query d)) \<le> 50 \<and>
      num_or (sq_limit (make_query d)) 10 = size_limit (build_search_body t (make_query d)) \<and>
      0 \<le> from_offset (build_search_body t (make_query d))"
    if ok: "SearchQuerySchema r = Some d"
  proof -
    from schema_limit [OF ok] have "\<And>n. p_limit d = Some n \<Longrightarrow> 0 \<le> n"
      by (auto dest: optional_number_nonneg)
    moreover from schema_offset [OF ok] have "\<And>n. p_offset d = Some n \<Longrightarrow> 0 \<le> n"
      by (auto dest: optional_number_nonneg)
    ultimately have "1 \<le> size_limit (build_search_body t (make_query d)) \<and>
      size_limit (build_search_body t (make_query d)) \<le> 50 \<and>
      0 \<le> from_offset (build_search_body t (make_query d))"
      unfolding served_limit served_offset by (auto split: option.splits)
    with response_limit [of d t] show ?thesis by simp
  qed
  have b: "digits_only s \<and> p_limit d = Some (int (to_number s))"
    if ok: "SearchQuerySchema r = Some d" and l: "rq_limit r = Str s"
    using schema_limit [OF ok] l by (auto simp: optional_number_def split: if_splits)
  have c: "get_search sha256_hex engine cfg now tenant r w =
        (Inl (AppError 400 ''Invalid query parameters''), w)"
    if "truthy tenant" "SearchQuerySchema r = None"
    using that by (simp add: get_search_def)
  have e: "rq_limit r = NonString \<or> rq_offset r = NonString \<longrightarrow> SearchQuerySchema r = None"
    using schema_nonstring_limit schema_nonstring_offset by blast
  from a b c e served_limit schema_bad_limit schema_bad_offset negative_not_digits
  show ?thesis by blast
qed

theorem limit_capped_offset_validated_witness:
  "size_limit (build_search_body ''tenant-1'' (make_query (params_with_limit 100))) = 50 \<and>
   size_limit (build_search_body ''tenant-1'' (make_query (params_with_limit 20))) = 20 \<and>
   SearchQuerySchema (request_with_limit ''100'') = Some (params_with_limit 100) \<and>
   SearchQuerySchema (request_with_limit ''abc'') = None \<and>
   get_search plain_digest no_hits default_config 0 (Some ''tenant-1'')
       ((request_with_limit ''10'')\<lparr>rq_offset := Str ''-1''\<rparr>) empty_world =
     (Inl (AppError 400 ''Invalid query parameters''), empty_world)"
proof -
  have d100: "digits_only ''100''" and d20: "digits_only ''20''"
    by (simp_all add: digits_only_def is_digit_def)
  have s100: "SearchQuerySchema (request_with_limit ''100'') = Some (params_with_limit 100)"
    using schema_request_with_limit [OF d100] by (simp add: to_number_def)
  have s20: "SearchQuerySchema (request_with_limit ''20'') = Some (params_with_limit 20)"
    using schema_request_with_limit [OF d20] by (simp add: to_number_def)
  have bad: "rq_limit (request_with_limit ''abc'') = Str ''abc'' \<and> \<not> digits_only ''abc''"
    by (simp add: request_with_limit_def digits_only_def is_digit_def)
  have off: "rq_offset ((request_with_limit ''10'')\<lparr>rq_offset := Str ''-1''\<rparr>) = Str ''-1''"
    by simp
  have t: "truthy (Some ''tenant-1'')" by (simp add: truthy_def)
  have n: "\<not> digits_only ''-1''" by (simp add: digits_only_def is_digit_def)
  have a: "size_limit (build_search_body ''tenant-1'' (make_query (params_with_limit 100))) = 50"
    using limit_capped_offset_validated
      [of "request_with_limit ''100''" "params_with_limit 100" "''tenant-1''"] s100
    by (simp add: params_with_limit_def)
  have b: "size_limit (build_search_body ''tenant-1'' (make_query (params_with_limit 20))) = 20"
    using limit_capped_offset_validated
      [of "request_with_limit ''20''" "params_with_limit 20" "''tenant-1''"] s20
    by (simp add: params_with_limit_def)
  have c: "SearchQuerySchema (request_with_limit ''abc'') = None"
    using limit_capped_offset_validated [of "request_with_limit ''abc''" _ _ "''abc''"] bad
    by blast
  have e: "SearchQuerySchema ((request_with_limit ''10'')\<lparr>rq_offset := Str ''-1''\<rparr>) = None"
    using limit_capped_offset_validated
      [of "(request_with_limit ''10'')\<lparr>rq_offset := Str ''-1''\<rparr>" _ _ "''-1''"] off n
    by blast
  have f: "get_search plain_digest no_hits default_config 0 (Some ''tenant-1'')
       ((request_with_limit ''10'')\<lparr>rq_offset := Str ''-1''\<rparr>) empty_world =
     (Inl (AppError 400 ''Invalid query parameters''), empty_world)"
    using limit_capped_offset_validated
      [of "(request_with_limit ''10'')\<lparr>rq_offset := Str ''-1''\<rparr>" _ _ _ "Some ''tenant-1''"] t e
    by blast
  from a b s100 c f show ?thesis by blast
qed

text \<open>
  A limit of 0 is served as 10, not as 1, and a limit of -1 is rejected with the 400
  error.
\<close>

theorem limit_below_one_counterexample:
  "fst (get_search plain_digest one_hit default_config 0 (Some ''tenant-1'')
          (request_with_limit ''0'') empty_world) =
     Inr (200, Search_body \<lparr> r_tenantId = ''tenant-1'', r_query = ''test'', r_offset = 0,
               r_limit = 10, r_total = 1,
               r_results = [\<lparr> sr_id = ''doc-1'', sr_title = ''Payment terms'',
                              sr_snippet = ''<em>Payment</em> terms'', sr_score = 3,
                              sr_tags = [] \<rparr>] \<rparr>) \<and>
   size_limit (build_search_body ''tenant-1'' (make_query (params_with_limit 0))) = 10 \<and>
   SearchQuerySchema (request_with_limit ''0'') = Some (params_with_limit 0) \<and>
   fst (get_search plain_digest one_hit default_config 0 (Some ''tenant-1'')
          (request_with_limit ''-1'') empty_world) =
     Inl (AppError 400 ''Invalid query parameters'')"
proof -
  have d0: "digits_only ''0''" by (simp add: digits_only_def is_digit_def)
  have s0: "SearchQuerySchema (request_with_limit ''0'') = Some (params_with_limit 0)"
    using schema_request_with_limit [OF d0] by (simp add: to_number_def)
  have q: "make_query (params_with_limit 0) =
      \<lparr> sq_q = ''test'', sq_offset = Some 0, sq_limit = Some 10, sq_tag = None,
        sq_author = None, sq_from = None, sq_to = None \<rparr>"
    by (simp add: make_query_def params_with_limit_def str_or_def truthy_def num_or_def)
  have a: "fst (get_search plain_digest one_hit default_config 0 (Some ''tenant-1'')
          (request_with_limit ''0'') empty_world) =
     Inr (200, Search_body \<lparr> r_tenantId = ''tenant-1'', r_query = ''test'', r_offset = 0,
               r_limit = 10, r_total = 1,
               r_results = [\<lparr> sr_id = ''doc-1'', sr_title = ''Payment terms'',
                              sr_snippet = ''<em>Payment</em> terms'', sr_score = 3,
                              sr_tags = [] \<rparr>] \<rparr>)"
    by (simp add: get_search_def s0 q truthy_def Let_def getSearchResult_def redis_get_def
        client_get_def call_fails_def empty_world_def lookup_live_def consume_def
        record_metric_def search_def os_search_def one_hit_def hit_to_result_def
        snippet_of_def num_or_def)
  have b: "size_limit (build_search_body ''tenant-1'' (make_query (params_with_limit 0))) = 10"
    by (simp add: served_limit params_with_limit_def)
  have n: "SearchQuerySchema (request_with_limit ''-1'') = None"
    by (rule schema_bad_limit [of _ "''-1''"])
       (simp_all add: request_with_limit_def digits_only_def is_digit_def)
  have c: "fst (get_search plain_digest one_hit default_config 0 (Some ''tenant-1'')
          (request_with_limit ''-1'') empty_world) =
     Inl (AppError 400 ''Invalid query parameters'')"
    by (simp add: get_search_def n truthy_def)
  from a b s0 c show ?thesis by blast
qed

section \<open>The fixed window of the rate limiter\<close>

text \<open>
  Claim C4. With a reachable Redis, a tenant and a positive window size: the window
  start is \<open>floor(now / windowMs) * windowMs\<close> and contains \<open>now\<close>; the counter key
  is determined by, and determines, the tenant identifier and the window start; a
  stored count (a missing one read as 0) at or above \<open>maxRequests\<close> is rejected with
  status 429 and \<open>Retry-After = ceil((windowStart + windowMs - now) / 1000)\<close>, the
  store unchanged; a smaller count is incremented and stored with a time to live of
  \<open>ceil(windowMs / 1000)\<close> seconds (the window size, rounded up to whole seconds),
  and the request is admitted with \<open>remaining = max(0, maxRequests - newCount)\<close>.
  Hence, for calls in one window starting without a counter, call number \<open>i\<close>
  (from 0) is admitted exactly when \<open>i < maxRequests\<close>, and a call after the end of
  the window is admitted with a fresh counter.
\<close>

theorem rate_limiter_fixed_window:
  assumes "truthy tenant" and "0 < windowMs cfg" and "redis_up w" and "redis_faults w = []"
  shows
    "windowStart_of cfg now = (now div windowMs cfg) * windowMs cfg \<and>
     windowStart_of cfg now \<le> now \<and> now < windowStart_of cfg now + windowMs cfg \<and>
     (maxRequests cfg \<le> num_or (lookup_live now (countKey (the tenant) (windowStart_of cfg now)) (redis_kv w)) 0 \<longrightarrow>
        rateLimiter cfg now tenant w =
          (\<lparr> rl_next = Some rate_limit_exceeded,
             rl_headers = [X_RateLimit_Limit (maxRequests cfg), X_RateLimit_Remaining 0,
                           X_RateLimit_Reset (windowStart_of cfg now + windowMs cfg),
                           Retry_After (ceil_div (windowStart_of cfg now + windowMs cfg - now) 1000)] \<rparr>,
           logger Warn ''Rate limit exceeded'' w)) \<and>
     (num_or (lookup_live now (countKey (the tenant) (windowStart_of cfg now)) (redis_kv w)) 0 < maxRequests cfg \<longrightarrow>
        rateLimiter cfg now tenant w =
          (\<lparr> rl_next = None,
             rl_headers = [X_RateLimit_Limit (maxRequests cfg),
                           X_RateLimit_Remaining (max 0 (maxRequests cfg -
                             (num_or (lookup_live now (countKey (the tenant) (windowStart_of cfg now)) (redis_kv w)) 0 + 1))),
                           X_RateLimit_Reset (windowStart_of cfg now + windowMs cfg)] \<rparr>,
           w\<lparr>redis_kv := AList.update (countKey (the tenant) (windowStart_of cfg now))
                 (num_or (lookup_live now (countKey (the tenant) (windowStart_of cfg now)) (redis_kv w)) 0 + 1,
                  Some (now + 1000 * ceil_div (windowMs cfg) 1000)) (redis_kv w)\<rparr>)) \<and>
     windowMs cfg \<le> 1000 * ceil_div (windowMs cfg) 1000 \<and>
     (1000 dvd windowMs cfg \<longrightarrow> 1000 * ceil_div (windowMs cfg) 1000 = windowMs cfg) \<and>
     (TenantIdSchema t1 \<and> TenantIdSchema t2 \<longrightarrow>
        (countKey t1 ws1 = countKey t2 ws2) = (t1 = t2 \<and> ws1 = ws2)) \<and>
     ((\<forall>t\<in>set ts. windowStart_of cfg t = ws) \<and>
      map_of (redis_kv w) (countKey (the tenant) ws) = None \<longrightarrow>
        map rl_next (fst (run_limiter cfg tenant ts w)) =
          map (\<lambda>i. if int i < maxRequests cfg then None else Some rate_limit_exceeded)
            [0..<length ts] \<and>
        (ws + windowMs cfg \<le> later \<and> 0 < maxRequests cfg \<and>
         map_of (redis_kv w) (countKey (the tenant) (windowStart_of cfg later)) = None \<longrightarrow>
           fst (rateLimiter cfg later tenant (snd (run_limiter cfg tenant ts w))) =
             \<lparr> rl_next = None,
               rl_headers = [X_RateLimit_Limit (maxRequests cfg),
                             X_RateLimit_Remaining (max 0 (maxRequests cfg - 1)),
                             X_RateLimit_Reset (windowStart_of cfg later + windowMs cfg)] \<rparr>))"
proof -
  have a: "windowStart_of cfg now = (now div windowMs cfg) * windowMs cfg"
    by (simp add: windowStart_of_def)
  have b1: "windowStart_of cfg now \<le> now" and b2: "now < windowStart_of cfg now + windowMs cfg"
    using window_bounds [OF assms(2), of now] by simp_all
  have c: "maxRequests cfg \<le> num_or (lookup_live now (countKey (the tenant) (windowStart_of cfg now)) (redis_kv w)) 0 \<longrightarrow>
        rateLimiter cfg now tenant w =
          (\<lparr> rl_next = Some rate_limit_exceeded,
             rl_headers = [X_RateLimit_Limit (maxRequests cfg), X_RateLimit_Remaining 0,
                           X_RateLimit_Reset (windowStart_of cfg now + windowMs cfg),
                           Retry_After (ceil_div (windowStart_of cfg now + windowMs cfg - now) 1000)] \<rparr>,
           logger Warn ''Rate limit exceeded'' w)"
    using limiter_reject [OF assms(1,3,4)] by blast
  have d: "num_or (lookup_live now (countKey (the tenant) (windowStart_of cfg now)) (redis_kv w)) 0 < maxRequests cfg \<longrightarrow>
        rateLimiter cfg now tenant w =
          (\<lparr> rl_next = None,
             rl_headers = [X_RateLimit_Limit (maxRequests cfg),
                           X_RateLimit_Remaining (max 0 (maxRequests cfg -
                             (num_or (lookup_live now (countKey (the tenant) (windowStart_of cfg now)) (redis_kv w)) 0 + 1))),
                           X_RateLimit_Reset (windowStart_of cfg now + windowMs cfg)] \<rparr>,
           w\<lparr>redis_kv := AList.update (countKey (the tenant) (windowStart_of cfg now))
                 (num_or (lookup_live now (countKey (the tenant) (windowStart_of cfg now)) (redis_kv w)) 0 + 1,
                  Some (now + 1000 * ceil_div (windowMs cfg) 1000)) (redis_kv w)\<rparr>)"
    using limiter_admit [OF assms(1,3,4,2)] by blast
  note e = ceil_div_ge [of "windowMs cfg"]
  have f: "1000 dvd windowMs cfg \<longrightarrow> 1000 * ceil_div (windowMs cfg) 1000 = windowMs cfg"
    using ceil_div_exact by blast
  have g: "(\<forall>t\<in>set ts. windowStart_of cfg t = ws) \<and>
      map_of (redis_kv w) (countKey (the tenant) ws) = None \<longrightarrow>
        map rl_next (fst (run_limiter cfg tenant ts w)) =
          map (\<lambda>i. if int i < maxRequests cfg then None else Some rate_limit_exceeded)
            [0..<length ts] \<and>
        (ws + windowMs cfg \<le> later \<and> 0 < maxRequests cfg \<and>
         map_of (redis_kv w) (countKey (the tenant) (windowStart_of cfg later)) = None \<longrightarrow>
           fst (rateLimiter cfg later tenant (snd (run_limiter cfg tenant ts w))) =
             \<lparr> rl_next = None,
               rl_headers = [X_RateLimit_Limit (maxRequests cfg),
                             X_RateLimit_Remaining (max 0 (maxRequests cfg - 1)),
                             X_RateLimit_Reset (windowStart_of cfg later + windowMs cfg)] \<rparr>)"
  proof (intro impI, elim conjE)
    assume win: "\<forall>t\<in>set ts. windowStart_of cfg t = ws"
      and fresh: "map_of (redis_kv w) (countKey (the tenant) ws) = None"
    have inv: "\<forall>n. windowStart_of cfg n = ws \<longrightarrow>
        num_or (lookup_live n (countKey (the tenant) ws) (redis_kv w)) 0 = 0"
      using fresh by (simp add: lookup_live_def)
    let ?w' = "snd (run_limiter cfg tenant ts w)"
    from run_limiter_window [OF assms(1,2) assms(3,4) win inv]
    have r1: "map rl_next (fst (run_limiter cfg tenant ts w)) =
          map (\<lambda>i. if int i < maxRequests cfg then None else Some rate_limit_exceeded)
            [0..<length ts]"
      and up: "redis_up ?w'" and nf: "redis_faults ?w' = []"
      and fr: "\<forall>k. k \<noteq> countKey (the tenant) ws \<longrightarrow> map_of (redis_kv ?w') k = map_of (redis_kv w) k"
      by simp_all
    have r2: "fst (rateLimiter cfg later tenant ?w') =
             \<lparr> rl_next = None,
               rl_headers = [X_RateLimit_Limit (maxRequests cfg),
                             X_RateLimit_Remaining (max 0 (maxRequests cfg - 1)),
                             X_RateLimit_Reset (windowStart_of cfg later + windowMs cfg)] \<rparr>"
      if l: "ws + windowMs cfg \<le> later" and m: "0 < maxRequests cfg"
        and fresh': "map_of (redis_kv w) (countKey (the tenant) (windowStart_of cfg later)) = None"
    proof -
      have "windowStart_of cfg later \<noteq> ws" using assms(2) l by (rule later_window)
      then have "countKey (the tenant) (windowStart_of cfg later) \<noteq> countKey (the tenant) ws"
        by (simp add: countKey_eq_iff)
      with fr fresh' have "map_of (redis_kv ?w') (countKey (the tenant) (windowStart_of cfg later)) = None"
        by simp
      then have z: "num_or (lookup_live later (countKey (the tenant) (windowStart_of cfg later)) (redis_kv ?w')) 0 = 0"
        by (simp add: lookup_live_def)
      show ?thesis
        using limiter_admit [OF assms(1) up nf assms(2), of later] m
        by (simp add: z)
    qed
    from r1 r2 show "map rl_next (fst (run_limiter cfg tenant ts w)) =
          map (\<lambda>i. if int i < maxRequests cfg then None else Some rate_limit_exceeded)
            [0..<length ts] \<and>
        (ws + windowMs cfg \<le> later \<and> 0 < maxRequests cfg \<and>
         map_of (redis_kv w) (countKey (the tenant) (windowStart_of cfg later)) = None \<longrightarrow>
           fst (rateLimiter cfg later tenant (snd (run_limiter cfg tenant ts w))) =
             \<lparr> rl_next = None,
               rl_headers = [X_RateLimit_Limit (maxRequests cfg),
                             X_RateLimit_Remaining (max 0 (maxRequests cfg - 1)),
                             X_RateLimit_Reset (windowStart_of cfg later + windowMs cfg)] \<rparr>)"
      by simp
  qed
  have h: "TenantIdSchema t1 \<and> TenantIdSchema t2 \<longrightarrow>
        (countKey t1 ws1 = countKey t2 ws2) = (t1 = t2 \<and> ws1 = ws2)"
    using countKey_inj by blast
  show ?thesis
    by (intro conjI) (rule a, rule b1, rule b2, rule c, rule d, rule e, rule f, rule h, rule g)
qed

theorem rate_limiter_fixed_window_witness:
  "map rl_next (fst (run_limiter test_config (Some ''test-tenant'') [0, 10, 250, 500, 998, 999] empty_world)) =
     [None, None, None, None, None, Some rate_limit_exceeded] \<and>
   fst (rateLimiter test_config 1001 (Some ''test-tenant'')
          (snd (run_limiter test_config (Some ''test-tenant'') [0, 10, 250, 500, 998, 999] empty_world))) =
     \<lparr> rl_next = None,
       rl_headers = [X_RateLimit_Limit 5, X_RateLimit_Remaining 4, X_RateLimit_Reset 2000] \<rparr> \<and>
   rateLimiter test_config 1250 (Some ''test-tenant'') empty_world =
     (\<lparr> rl_next = None,
        rl_headers = [X_RateLimit_Limit 5, X_RateLimit_Remaining 4, X_RateLimit_Reset 2000] \<rparr>,
      empty_world\<lparr>redis_kv := [(''ratelimit:test-tenant:1000'', (1, Some 2250))]\<rparr>) \<and>
   rateLimiter test_config 1999 (Some ''test-tenant'')
       (empty_world\<lparr>redis_kv := [(''ratelimit:test-tenant:1000'', (5, Some 2990))]\<rparr>) =
     (\<lparr> rl_next = Some rate_limit_exceeded,
        rl_headers = [X_RateLimit_Limit 5, X_RateLimit_Remaining 0, X_RateLimit_Reset 2000,
                      Retry_After 1] \<rparr>,
      logger Warn ''Rate limit exceeded''
        (empty_world\<lparr>redis_kv := [(''ratelimit:test-tenant:1000'', (5, Some 2990))]\<rparr>))"
proof -
  have h1: "truthy (Some ''test-tenant'')" by (simp add: truthy_def)
  have h2: "0 < windowMs test_config" by (simp add: test_config_def)
  have h3: "redis_up (empty_world :: int world)" by (simp add: empty_world_def)
  have h4: "redis_faults (empty_world :: int world) = []" by (simp add: empty_world_def)
  have ws: "\<forall>t\<in>set [0, 10, 250, 500, 998, 999]. windowStart_of test_config t = 0"
    by (simp add: windowStart_of_def test_config_def)
  have fresh: "map_of (redis_kv (empty_world :: int world)) k = None" for k
    by (simp add: empty_world_def)
  have up: "upt 0 6 = [0, 1, 2, 3, 4, 5]" by code_simp
  from rate_limiter_fixed_window [OF h1 h2 h3 h4, where ts = "[0, 10, 250, 500, 998, 999]"
      and ws = 0 and later = 1001 and now = 0
      and ?t1.0 = "''test-tenant''" and ?t2.0 = "''test-tenant''" and ?ws1.0 = 0 and ?ws2.0 = 0]
    ws fresh
  have a: "map rl_next (fst (run_limiter test_config (Some ''test-tenant'') [0, 10, 250, 500, 998, 999] empty_world)) =
     [None, None, None, None, None, Some rate_limit_exceeded]"
    and b: "fst (rateLimiter test_config 1001 (Some ''test-tenant'')
          (snd (run_limiter test_config (Some ''test-tenant'') [0, 10, 250, 500, 998, 999] empty_world))) =
     \<lparr> rl_next = None,
       rl_headers = [X_RateLimit_Limit 5, X_RateLimit_Remaining 4, X_RateLimit_Reset 2000] \<rparr>"
    by (simp_all add: up test_config_def windowStart_of_def)
  have c: "rateLimiter test_config 1250 (Some ''test-tenant'') empty_world =
     (\<lparr> rl_next = None,
        rl_headers = [X_RateLimit_Limit 5, X_RateLimit_Remaining 4, X_RateLimit_Reset 2000] \<rparr>,
      empty_world\<lparr>redis_kv := [(''ratelimit:test-tenant:1000'', (1, Some 2250))]\<rparr>)"
    using rate_limiter_fixed_window [OF h1 h2 h3 h4, where now = 1250 and ts = "[]" and ws = 0 and later = 0
      and ?t1.0 = "''test-tenant''" and ?t2.0 = "''test-tenant''" and ?ws1.0 = 0 and ?ws2.0 = 0]
    by (simp add: test_config_def windowStart_of_def ceil_div_def countKey_def
        show_nat.simps digit_char_def lookup_live_def empty_world_def)
  have h3': "redis_up (empty_world\<lparr>redis_kv := [(''ratelimit:test-tenant:1000'', (5::int, Some 2990))]\<rparr>)"
    by (simp add: empty_world_def)
  have h4': "redis_faults (empty_world\<lparr>redis_kv := [(''ratelimit:test-tenant:1000'', (5::int, Some 2990))]\<rparr>) = []"
    by (simp add: empty_world_def)
  have d: "rateLimiter test_config 1999 (Some ''test-tenant'')
       (empty_world\<lparr>redis_kv := [(''ratelimit:test-tenant:1000'', (5, Some 2990))]\<rparr>) =
     (\<lparr> rl_next = Some rate_limit_exceeded,
        rl_headers = [X_RateLimit_Limit 5, X_RateLimit_Remaining 0, X_RateLimit_Reset 2000,
                      Retry_After 1] \<rparr>,
      logger Warn ''Rate limit exceeded''
        (empty_world\<lparr>redis_kv := [(''ratelimit:test-tenant:1000'', (5, Some 2990))]\<rparr>))"
    using rate_limiter_fixed_window [OF h1 h2 h3' h4', where now = 1999 and ts = "[]" and ws = 0 and later = 0
      and ?t1.0 = "''test-tenant''" and ?t2.0 = "''test-tenant''" and ?ws1.0 = 0 and ?ws2.0 = 0]
    by (simp add: test_config_def windowStart_of_def ceil_div_def countKey_def
        show_nat.simps digit_char_def lookup_live_def live_def)
  from a b c d show ?thesis by blast
qed

section \<open>Search during a cache outage\<close>

text \<open>
  Claim C5. When every Redis call fails, the cache read of a search request is a miss,
  a miss metric is recorded, and the route answers exactly what the index engine gives:
  the response built from the engine's hits when the engine is reachable, and otherwise
  the engine's own error; the failed cache write changes neither the answer nor the
  store.
\<close>

theorem search_survives_cache_outage:
  assumes "\<not> redis_up w" and "truthy tenant" and "SearchQuerySchema req = Some d"
  shows
    "fst (getSearchResult sha256_hex now (the tenant) (sq_q (make_query d))
            \<lparr> f_tag = sq_tag (make_query d), f_author = sq_author (make_query d),
              f_from = sq_from (make_query d), f_to = sq_to (make_query d) \<rparr>
            (num_or (sq_offset (make_query d)) 0) (num_or (sq_limit (make_query d)) 10) w) = None \<and>
     fst (get_search sha256_hex engine cfg now tenant req w) =
       (case fst (search engine (the tenant) (make_query d) w) of
          Inl e \<Rightarrow> Inl (Thrown e)
        | Inr (results, tot) \<Rightarrow>
            Inr (200, Search_body \<lparr> r_tenantId = the tenant, r_query = sq_q (make_query d),
                      r_offset = num_or (sq_offset (make_query d)) 0,
                      r_limit = num_or (sq_limit (make_query d)) 10,
                      r_total = tot, r_results = results \<rparr>)) \<and>
     (os_up w \<longrightarrow>
        fst (get_search sha256_hex engine cfg now tenant req w) =
          Inr (200, Search_body \<lparr> r_tenantId = the tenant, r_query = sq_q (make_query d),
                    r_offset = num_or (sq_offset (make_query d)) 0,
                    r_limit = num_or (sq_limit (make_query d)) 10,
                    r_total = snd (engine (build_search_body (the tenant) (make_query d)) (os_docs w)),
                    r_results = map hit_to_result
                      (fst (engine (build_search_body (the tenant) (make_query d)) (os_docs w))) \<rparr>)) \<and>
     redis_kv (snd (get_search sha256_hex engine cfg now tenant req w)) = redis_kv w \<and>
     CacheMiss ''search'' \<in> set (metrics (snd (get_search sha256_hex engine cfg now tenant req w)))"
proof -
  let ?t = "the tenant"
  let ?q = "make_query d"
  let ?f = "\<lparr> f_tag = sq_tag ?q, f_author = sq_author ?q, f_from = sq_from ?q, f_to = sq_to ?q \<rparr>"
  let ?off = "num_or (sq_offset ?q) 0"
  let ?lim = "num_or (sq_limit ?q) 10"
  let ?w1 = "record_metric (CacheMiss ''search'') (logger Error ''Redis get error'' (consume w))"
  have g: "getSearchResult sha256_hex now ?t (sq_q ?q) ?f ?off ?lim w = (None, ?w1)"
    using assms(1) by (rule getSearchResult_outage)
  have s1: "fst (search engine ?t ?q ?w1) = fst (search engine ?t ?q w)"
    by (rule search_fst_cong) simp_all
  obtain res w2 where s: "search engine ?t ?q ?w1 = (res, w2)" by (cases "search engine ?t ?q ?w1")
  have res: "res = fst (search engine ?t ?q w)" using s s1 by simp
  have w2: "\<not> redis_up w2" "redis_kv w2 = redis_kv w" "CacheMiss ''search'' \<in> set (metrics w2)"
  proof -
    have "w2 = snd (search engine ?t ?q ?w1)" using s by simp
    then show "\<not> redis_up w2" "redis_kv w2 = redis_kv w" using assms(1) by simp_all
    show "CacheMiss ''search'' \<in> set (metrics w2)"
      using s by (auto simp: search_def split: sum.splits prod.splits)
  qed
  have a: "fst (getSearchResult sha256_hex now ?t (sq_q ?q) ?f ?off ?lim w) = None"
    by (simp add: g)
  have b: "fst (get_search sha256_hex engine cfg now tenant req w) =
       (case fst (search engine ?t ?q w) of
          Inl e \<Rightarrow> Inl (Thrown e)
        | Inr (results, tot) \<Rightarrow>
            Inr (200, Search_body \<lparr> r_tenantId = ?t, r_query = sq_q ?q, r_offset = ?off,
                      r_limit = ?lim, r_total = tot, r_results = results \<rparr>))"
    using assms(2,3) res
    by (simp add: get_search_def Let_def g s split: sum.splits prod.splits)
  have c: "fst (get_search sha256_hex engine cfg now tenant req w) =
          Inr (200, Search_body \<lparr> r_tenantId = ?t, r_query = sq_q ?q, r_offset = ?off,
                    r_limit = ?lim,
                    r_total = snd (engine (build_search_body ?t ?q) (os_docs w)),
                    r_results = map hit_to_result
                      (fst (engine (build_search_body ?t ?q) (os_docs w))) \<rparr>)"
    if "os_up w"
    using that unfolding b
    by (simp add: search_def os_search_def split: prod.splits)
  have d: "redis_kv (snd (get_search sha256_hex engine cfg now tenant req w)) = redis_kv w"
    using assms(2,3) w2
    by (simp add: get_search_def Let_def g s setSearchResult_outage split: sum.splits prod.splits)
  have e: "CacheMiss ''search'' \<in> set (metrics (snd (get_search sha256_hex engine cfg now tenant req w)))"
    using assms(2,3) w2
    by (simp add: get_search_def Let_def g s setSearchResult_outage split: sum.splits prod.splits)
  from a b c d e show ?thesis by blast
qed

theorem search_survives_cache_outage_witness:
  "fst (get_search plain_digest one_hit default_config 0 (Some ''t1'') (request_with_limit ''100'')
          (empty_world\<lparr>redis_up := False\<rparr>)) =
     Inr (200, Search_body \<lparr> r_tenantId = ''t1'', r_query = ''test'', r_offset = 0, r_limit = 50,
               r_total = 1,
               r_results = [\<lparr> sr_id = ''doc-1'', sr_title = ''Payment terms'',
                              sr_snippet = ''<em>Payment</em> terms'', sr_score = 3,
                              sr_tags = [] \<rparr>] \<rparr>) \<and>
   fst (get_search plain_digest one_hit default_config 0 (Some ''t1'') (request_with_limit ''100'')
          (empty_world\<lparr>redis_up := False, os_up := False\<rparr>)) = Inl (Thrown (Os_error None))"
proof -
  have h2: "truthy (Some ''t1'')" by (simp add: truthy_def)
  have d100: "digits_only ''100''" by (simp add: digits_only_def is_digit_def)
  have h3: "SearchQuerySchema (request_with_limit ''100'') = Some (params_with_limit 100)"
    using schema_request_with_limit [OF d100] by (simp add: to_number_def)
  have q: "make_query (params_with_limit 100) =
      \<lparr> sq_q = ''test'', sq_offset = Some 0, sq_limit = Some 50, sq_tag = None,
        sq_author = None, sq_from = None, sq_to = None \<rparr>"
    by (simp add: make_query_def params_with_limit_def str_or_def truthy_def num_or_def)
  have a: "fst (get_search plain_digest one_hit default_config 0 (Some ''t1'') (request_with_limit ''100'')
          (empty_world\<lparr>redis_up := False\<rparr>)) =
     Inr (200, Search_body \<lparr> r_tenantId = ''t1'', r_query = ''test'', r_offset = 0, r_limit = 50,
               r_total = 1,
               r_results = [\<lparr> sr_id = ''doc-1'', sr_title = ''Payment terms'',
                              sr_snippet = ''<em>Payment</em> terms'', sr_score = 3,
                              sr_tags = [] \<rparr>] \<rparr>)"
    using search_survives_cache_outage [OF _ h2 h3, where w = "empty_world\<lparr>redis_up := False\<rparr>"
        and sha256_hex = plain_digest and engine = one_hit and cfg = default_config and now = 0]
    by (simp add: q empty_world_def one_hit_def hit_to_result_def snippet_of_def num_or_def
        search_def os_search_def)
  have b: "fst (get_search plain_digest one_hit default_config 0 (Some ''t1'') (request_with_limit ''100'')
          (empty_world\<lparr>redis_up := False, os_up := False\<rparr>)) = Inl (Thrown (Os_error None))"
    using search_survives_cache_outage [OF _ h2 h3,
        where w = "empty_world\<lparr>redis_up := False, os_up := False\<rparr>"
        and sha256_hex = plain_digest and engine = one_hit and cfg = default_config and now = 0]
    by (simp add: q search_def os_search_def empty_world_def)
  from a b show ?thesis by blast
qed

section \<open>The rate limiter during a Redis outage\<close>




section \<open>A document of another tenant\<close>

text \<open>
  Claim C7. If the document stored under the index identifier of \<open>(tenant, docId)\<close>
  carries another tenant's identifier, \<open>getDocument\<close> returns \<open>null\<close>, as it does
  when nothing is stored there, and on a cache miss the route answers 404
  \<open>Document not found\<close> in both cases.
\<close>

theorem tenant_mismatch_is_not_found:
  assumes "truthy tenant" and "os_up w"
    and "map_of (os_docs w) (index_id (the tenant) docId) = Some source"
    and "tenant_id source \<noteq> the tenant"
  shows
    "fst (getDocument (the tenant) docId w) = Inr None \<and>
     fst (getDocument (the tenant) docId
            (w\<lparr>os_docs := AList.delete (index_id (the tenant) docId) (os_docs w)\<rparr>)) = Inr None \<and>
     (fst (cache_getDocument now (the tenant) docId w) = None \<longrightarrow>
        fst (get_document cfg now tenant docId w) = Inl (AppError 404 ''Document not found'') \<and>
        fst (get_document cfg now tenant docId
               (w\<lparr>os_docs := AList.delete (index_id (the tenant) docId) (os_docs w)\<rparr>)) =
          Inl (AppError 404 ''Document not found'')) \<and>
     fst (errorHandler (AppError 404 ''Document not found'') w) =
       (404, Error_body ''Document not found'')"
proof -
  let ?t = "the tenant"
  let ?w2 = "w\<lparr>os_docs := AList.delete (index_id ?t docId) (os_docs w)\<rparr>"
  have a: "fst (getDocument ?t docId w) = Inr None"
    using assms(2,3,4) by (rule getDocument_mismatch)
  have absent: "map_of (os_docs ?w2) (index_id ?t docId) = None"
    by (simp add: delete_conv')
  have up2: "os_up ?w2" using assms(2) by simp
  have b: "fst (getDocument ?t docId ?w2) = Inr None"
    using getDocument_absent [OF up2 absent] by simp
  have c: "fst (get_document cfg now tenant docId w) = Inl (AppError 404 ''Document not found'')"
    if miss: "fst (cache_getDocument now ?t docId w) = None"
  proof (rule get_document_miss [OF assms(1) miss])
    let ?w1 = "snd (cache_getDocument now ?t docId w)"
    have "os_up ?w1" "map_of (os_docs ?w1) (index_id ?t docId) = Some source"
      using assms(2,3) by simp_all
    then show "fst (getDocument ?t docId ?w1) = Inr None"
      using assms(4) by (rule getDocument_mismatch)
  qed
  have d: "fst (get_document cfg now tenant docId ?w2) = Inl (AppError 404 ''Document not found'')"
    if miss: "fst (cache_getDocument now ?t docId w) = None"
  proof (rule get_document_miss [OF assms(1)])
    show m2: "fst (cache_getDocument now ?t docId ?w2) = None"
      using miss by (simp add: cache_getDocument_indep)
    let ?w1 = "snd (cache_getDocument now ?t docId ?w2)"
    have "os_up ?w1" "map_of (os_docs ?w1) (index_id ?t docId) = None"
      using up2 absent by simp_all
    then show "fst (getDocument ?t docId ?w1) = Inr None"
      using getDocument_absent by (metis fst_conv)
  qed
  have e: "fst (errorHandler (AppError 404 ''Document not found'') w) =
       (404, Error_body ''Document not found'')"
    by (simp add: errorHandler_def)
  from a b c d e show ?thesis by blast
qed

theorem tenant_mismatch_is_not_found_witness:
  "fst (getDocument ''a'' ''b_c''
          (empty_world\<lparr>os_docs := [(''a_b_c'', doc_of_other_tenant)]\<rparr> :: cached world)) = Inr None \<and>
   fst (get_document default_config 0 (Some ''a'') ''b_c''
          (empty_world\<lparr>os_docs := [(''a_b_c'', doc_of_other_tenant)]\<rparr>)) =
     Inl (AppError 404 ''Document not found'') \<and>
   fst (get_document default_config 0 (Some ''a'') ''b_c'' empty_world) =
     Inl (AppError 404 ''Document not found'')"
proof -
  let ?w = "empty_world\<lparr>os_docs := [(''a_b_c'', doc_of_other_tenant)]\<rparr> :: cached world"
  have h1: "truthy (Some ''a'')" by (simp add: truthy_def)
  have h2: "os_up ?w" by (simp add: empty_world_def)
  have h3: "map_of (os_docs ?w) (index_id (the (Some ''a'')) ''b_c'') = Some doc_of_other_tenant"
    by (simp add: index_id_def)
  have h4: "tenant_id doc_of_other_tenant \<noteq> the (Some ''a'')"
    by (simp add: doc_of_other_tenant_def)
  have miss: "fst (cache_getDocument 0 ''a'' ''b_c'' ?w) = None"
    by (simp add: cache_getDocument_def redis_get_def client_get_def call_fails_def
        lookup_live_def empty_world_def)
  from tenant_mismatch_is_not_found [OF h1 h2 h3 h4, of 0 default_config] miss
  show ?thesis by (simp add: index_id_def empty_world_def)
qed

section \<open>The text clause of the query plan\<close>

text \<open>
  Claim C8. If the query text is empty or consists of white space, the \<open>must\<close> list
  of the plan is \<open>match_all\<close>; otherwise it is the \<open>multi_match\<close> of the query text
  against \<open>title^3\<close>, \<open>content\<close> and \<open>tags^2\<close> (weights 3, 1 and 2 in the
  engine's notation) with type \<open>best_fields\<close> and operator \<open>or\<close>. In both cases
  the filters are the tenant filter followed by the optional filters.
\<close>

theorem empty_query_matches_all:
  "((\<forall>c\<in>set (sq_q query). js_whitespace c) \<longrightarrow>
      must (build_search_body tenantId query) = [Match_all]) \<and>
   ((\<exists>c\<in>set (sq_q query). \<not> js_whitespace c) \<longrightarrow>
      must (build_search_body tenantId query) =
        [Bool_should [Multi_match (sq_q query) [''title^3'', ''content'', ''tags^2'']
                        ''best_fields'' ''or'']]) \<and>
   filter_clauses (build_search_body tenantId query) =
     Term ''tenant_id'' tenantId # extra_filters query"
proof -
  have e: "(sq_q query \<noteq> [] \<and> trim (sq_q query) \<noteq> []) \<longleftrightarrow> (\<exists>c\<in>set (sq_q query). \<not> js_whitespace c)"
    by (auto simp: trim_Nil_iff)
  show ?thesis
    unfolding build_search_body_def text_clauses_def e by auto
qed

theorem empty_query_matches_all_witness:
  "must (build_search_body ''t1'' (query_with_filters\<lparr>sq_q := []\<rparr>)) = [Match_all] \<and>
   must (build_search_body ''t1'' (query_with_filters\<lparr>sq_q := ''   ''\<rparr>)) = [Match_all] \<and>
   must (build_search_body ''t1'' query_with_filters) =
     [Bool_should [Multi_match ''payment'' [''title^3'', ''content'', ''tags^2'']
                     ''best_fields'' ''or'']] \<and>
   filter_clauses (build_search_body ''t1'' (query_with_filters\<lparr>sq_q := ''   ''\<rparr>)) =
     [Term ''tenant_id'' ''t1'', Term ''tags'' ''tenant_id'', Term ''metadata.author'' ''john'',
      Range ''created_at'' None (Some ''2024-12-31'')]"
proof -
  have w1: "\<forall>c\<in>set (sq_q (query_with_filters\<lparr>sq_q := []\<rparr>)). js_whitespace c" by simp
  have w2: "\<forall>c\<in>set (sq_q (query_with_filters\<lparr>sq_q := ''   ''\<rparr>)). js_whitespace c"
    by (simp add: js_whitespace_def)
  have w3: "\<exists>c\<in>set (sq_q query_with_filters). \<not> js_whitespace c"
    by (simp add: query_with_filters_def js_whitespace_def)
  have ex: "extra_filters (query_with_filters\<lparr>sq_q := ''   ''\<rparr>) =
     [Term ''tags'' ''tenant_id'', Term ''metadata.author'' ''john'',
      Range ''created_at'' None (Some ''2024-12-31'')]"
    by (simp add: extra_filters_def query_with_filters_def truthy_def)
  have q: "sq_q query_with_filters = ''payment''" by (simp add: query_with_filters_def)
  from empty_query_matches_all [of "query_with_filters\<lparr>sq_q := []\<rparr>" "''t1''"] w1
    empty_query_matches_all [of "query_with_filters\<lparr>sq_q := ''   ''\<rparr>" "''t1''"] w2
    empty_query_matches_all [of query_with_filters "''t1''"] w3
  show ?thesis by (simp add: ex q)
qed

section \<open>The cache key of a search\<close>

text \<open>
  Claim C9. \<open>getSearchKey\<close> is a function of its arguments, and for the same query,
  filters, offset and limit two tenant identifiers give the same key exactly when they
  are the same identifier.
\<close>

theorem search_key_separates_tenants:
  "(getSearchKey sha256_hex tenantId1 query filters offset limit =
    getSearchKey sha256_hex tenantId2 query filters offset limit) = (tenantId1 = tenantId2)"
  by (simp add: getSearchKey_def)

section \<open>Index identifiers of two tenants\<close>

text \<open>
  Claim C10. The tenant identifiers \<open>a\<close> and \<open>a_b\<close> are both valid, and the
  pairs \<open>(a, b_c)\<close> and \<open>(a_b, c)\<close> have the same index identifier. When tenant
  \<open>a_b\<close> has stored document \<open>c\<close>, a \<open>DELETE\<close> of \<open>b_c\<close> by tenant
  \<open>a\<close> reports \<open>deleted\<close> and the document of \<open>a_b\<close> is gone; a \<open>POST\<close>
  of \<open>b_c\<close> by tenant \<open>a\<close> replaces it, so that \<open>a_b\<close> no longer finds it.
\<close>

theorem index_id_collision:
  "TenantIdSchema ''a'' \<and> TenantIdSchema ''a_b'' \<and>
   index_id ''a'' ''b_c'' = index_id ''a_b'' ''c'' \<and>
   fst (getDocument ''a_b'' ''c''
          (snd (post_document iso0 ''g'' 0 (Some ''a_b'') (example_input ''c'' ''A'') empty_world))) =
     Inr (Some (example_document ''a_b'' ''c'' ''A'')) \<and>
   fst (delete_document 0 (Some ''a'') ''b_c''
          (snd (post_document iso0 ''g'' 0 (Some ''a_b'') (example_input ''c'' ''A'') empty_world))) =
     Inr (200, Status_body ''b_c'' ''a'' ''deleted'') \<and>
   fst (getDocument ''a_b'' ''c''
          (snd (delete_document 0 (Some ''a'') ''b_c''
            (snd (post_document iso0 ''g'' 0 (Some ''a_b'') (example_input ''c'' ''A'') empty_world))))) =
     Inr None \<and>
   fst (getDocument ''a_b'' ''c''
          (snd (post_document iso0 ''g'' 0 (Some ''a'') (example_input ''b_c'' ''Z'')
            (snd (post_document iso0 ''g'' 0 (Some ''a_b'') (example_input ''c'' ''A'') empty_world))))) =
     Inr None"
  by (simp add: TenantIdSchema_def tenant_char_def index_id_def post_document_def
      DocumentSchema_ok_def example_input_def example_document_def iso0_def truthy_def
      indexDocument_def os_index_def str_or_def Let_def empty_world_def
      invalidateTenantSearches_def redis_delPattern_def client_keys_def call_fails_def
      consume_def logger_def getDocument_def os_get_def mapIndexToDocument_def
      delete_document_def deleteDocument_def os_delete_def invalidateDocument_def
      redis_del_def client_del_def getDocumentKey_def)

end
